theory Spec2Isabelle
  imports Main
begin

section \<open>Values and configurations\<close>

text \<open>
  The services are TypeScript classes compiled to JavaScript. Values that cross the
  boundary to a collaborator (stored tokens, stored expiry, the authentication result)
  are JavaScript values; only their truthiness and their identity as strings matter
  here. Numbers are integers (epoch milliseconds, seconds): \<open>JNum n\<close> is the number
  the integer literal \<open>n\<close> denotes, which is \<open>n\<close> itself up to
  \<open>2^53\<close> in magnitude and the nearest double beyond.
\<close>

datatype jsval =
    JUndefined
  | JNull
  | JBool bool
  | JNum int
  | JStr string
  | JObj "(string \<times> jsval) list"

text \<open>JavaScript truthiness: what \<open>!!x\<close> and \<open>if (x)\<close> test.\<close>

fun truthy :: "jsval \<Rightarrow> bool" where
  "truthy JUndefined = False"
| "truthy JNull = False"
| "truthy (JBool b) = b"
| "truthy (JNum n) = (n \<noteq> 0)"
| "truthy (JStr s) = (s \<noteq> [])"
| "truthy (JObj fs) = True"

subsection \<open>Arithmetic on numbers\<close>

text \<open>
  A JavaScript number is a double. Every integer up to \<open>Number.MAX_SAFE_INTEGER\<close>
  in magnitude is one, and sums and products that stay in that range are exact.
\<close>

definition safeInteger :: "int \<Rightarrow> bool" where
  "safeInteger n = (abs n \<le> 9007199254740991)"

fun bitLength :: "nat \<Rightarrow> nat" where
  "bitLength n = (if n = 0 then 0 else Suc (bitLength (n div 2)))"

text \<open>
  The double nearest to a natural number: 53 significant bits are kept, the rest is
  rounded to nearest, a tie to the even neighbour. \<open>None\<close> is \<open>Infinity\<close>.
\<close>

definition nearestDouble :: "nat \<Rightarrow> nat option" where
  "nearestDouble m =
     (let sh = bitLength m - 53;
          q = m div 2 ^ sh;
          r = m mod 2 ^ sh;
          d = (if 2 * r > 2 ^ sh \<or> (2 * r = 2 ^ sh \<and> odd q) then (q + 1) * 2 ^ sh
               else q * 2 ^ sh)
      in if d < 2 ^ 1024 then Some d else None)"

definition nearestNumber :: "int \<Rightarrow> int option" where
  "nearestNumber n =
     (case nearestDouble (nat (abs n)) of
        None \<Rightarrow> None
      | Some d \<Rightarrow> Some (if n < 0 then - int d else int d))"

text \<open>
  \<open>a * b\<close> and \<open>a + b\<close> on numbers: the exact result, rounded once.
  \<open>None\<close> is an infinite result, which \<open>jsval\<close> does not have.
\<close>

definition numberTimes :: "int \<Rightarrow> int \<Rightarrow> int option" where
  "numberTimes a b =
     (case (nearestNumber a, nearestNumber b) of
        (Some x, Some y) \<Rightarrow> nearestNumber (x * y)
      | _ \<Rightarrow> None)"

definition numberPlus :: "int \<Rightarrow> int \<Rightarrow> int option" where
  "numberPlus a b =
     (case (nearestNumber a, nearestNumber b) of
        (Some x, Some y) \<Rightarrow> nearestNumber (x + y)
      | _ \<Rightarrow> None)"

subsection \<open>Configurations\<close>

text \<open>
  \<open>OpenIdConfiguration\<close> is declared outside the two services; these are the fields
  the services read.
\<close>

record OpenIdConfiguration =
  configId :: string
  renewTimeBeforeTokenExpiresInSeconds :: int
  enableIdTokenExpiredValidationInRenew :: bool

section \<open>ConfigValidationService\<close>

text \<open>
  \<open>Level\<close> is the string literal type \<open>'error' | 'warning'\<close>; the service compares
  it with \<open>===\<close> against the literals.
\<close>

type_synonym Level = string

record RuleValidationResult =
  messages :: "string list"
  level :: Level

text \<open>
  The rule tables \<open>allRules\<close> and \<open>allMultipleConfigRules\<close> are imported from
  \<open>./rules\<close>; they are parameters of the model. \<open>validateConfigInternal\<close> takes
  them as \<open>any[]\<close>, so a rule is a function of whatever it is handed: one
  configuration object, or an array of them.
\<close>

datatype rule_argument =
    Config OpenIdConfiguration
  | Configs "OpenIdConfiguration list"

type_synonym rule = "rule_argument \<Rightarrow> RuleValidationResult"

text \<open>What the injected \<open>LoggerService\<close> was asked to log, in call order.\<close>

datatype log_call =
    LogError string string
  | LogWarning string string

definition getAllMessagesOfType :: "Level \<Rightarrow> RuleValidationResult list \<Rightarrow> string list" where
  "getAllMessagesOfType type results =
     (let allMessages = map messages (filter (\<lambda>x. level x = type) results)
      in foldl (\<lambda>acc val. acc @ val) [] allMessages)"

definition processValidationResultsAndGetErrorCount ::
  "RuleValidationResult list \<Rightarrow> string \<Rightarrow> log_call list \<Rightarrow> nat \<times> log_call list" where
  "processValidationResultsAndGetErrorCount allValidationResults cid logged =
     (let allMessages = filter (\<lambda>x. length (messages x) > 0) allValidationResults;
          allErrorMessages = getAllMessagesOfType ''error'' allMessages;
          allWarnings = getAllMessagesOfType ''warning'' allMessages;
          logged1 = foldl (\<lambda>l message. l @ [LogError cid message]) logged allErrorMessages;
          logged2 = foldl (\<lambda>l message. l @ [LogWarning cid message]) logged1 allWarnings
      in (length allErrorMessages, logged2))"

definition validateConfigInternal ::
  "OpenIdConfiguration \<Rightarrow> rule list \<Rightarrow> log_call list \<Rightarrow> bool \<times> log_call list" where
  "validateConfigInternal passedConfig allRulesToUse logged =
     (let allValidationResults = map (\<lambda>rule. rule (Config passedConfig)) allRulesToUse;
          (errorCount, logged') =
            processValidationResultsAndGetErrorCount allValidationResults
              (configId passedConfig) logged
      in (errorCount = 0, logged'))"

text \<open>\<open>Array.prototype.map\<close> with a callback that has effects: left to right.\<close>

primrec mapS :: "('a \<Rightarrow> 's \<Rightarrow> 'b \<times> 's) \<Rightarrow> 'a list \<Rightarrow> 's \<Rightarrow> 'b list \<times> 's" where
  "mapS f [] s = ([], s)"
| "mapS f (x # xs) s =
     (let (y, s1) = f x s; (ys, s2) = mapS f xs s1 in (y # ys, s2))"

definition validateConfigs ::
  "rule list \<Rightarrow> OpenIdConfiguration list \<Rightarrow> log_call list \<Rightarrow> bool \<times> log_call list" where
  "validateConfigs allMultipleConfigRules passedConfigs logged =
     (let (result, logged') =
            mapS (\<lambda>passedConfig. validateConfigInternal passedConfig allMultipleConfigRules)
              passedConfigs logged
      in (list_all (\<lambda>x. x = True) result, logged'))"

definition validateConfig ::
  "rule list \<Rightarrow> OpenIdConfiguration \<Rightarrow> log_call list \<Rightarrow> bool \<times> log_call list" where
  "validateConfig allRules passedConfig logged =
     validateConfigInternal passedConfig allRules logged"

section \<open>AuthStateService\<close>

subsection \<open>Data\<close>

text \<open>The per-configuration entry \<open>{ configId, isAuthenticated }\<close>.\<close>

record ConfigAuthenticatedResult =
  resultConfigId :: string
  resultIsAuthenticated :: bool

text \<open>The aggregate \<open>{ isAuthenticated, allConfigsAuthenticated }\<close>.\<close>

record AuthenticatedResult =
  aggregateIsAuthenticated :: bool
  allConfigsAuthenticated :: "ConfigAuthenticatedResult list"

definition DEFAULT_AUTHRESULT :: AuthenticatedResult where
  "DEFAULT_AUTHRESULT = \<lparr>aggregateIsAuthenticated = False, allConfigsAuthenticated = []\<rparr>"

text \<open>
  \<open>AuthResult\<close> (declared with the flows) has an optional numeric \<open>expires_in\<close>;
  \<open>None\<close> is the absent property. The parameter itself may be null or undefined
  (the code reads it with \<open>?.\<close>), which is \<open>None\<close> of \<open>AuthResult option\<close>.
\<close>

record AuthResult =
  expires_in :: "int option"

datatype EventTypes = NewAuthenticationResult | IdTokenExpired | TokenExpired

datatype js_error = URIError

subsection \<open>Collaborators and the observable state\<close>

text \<open>
  Every call the service makes on an injected collaborator, in call order. Queries are
  recorded as well as commands, so that "was not evaluated" is a statement about this
  list.
\<close>

datatype call =
    StorageRead string OpenIdConfiguration
  | StorageWrite string jsval OpenIdConfiguration
  | StorageResetAuthStateInStorage OpenIdConfiguration
  | StorageGetAccessToken OpenIdConfiguration
  | StorageGetIdToken OpenIdConfiguration
  | StorageGetRefreshToken OpenIdConfiguration
  | StorageGetAuthenticationResult OpenIdConfiguration
  | HasIdTokenExpired jsval OpenIdConfiguration int
  | ValidateAccessTokenNotExpired jsval OpenIdConfiguration int
  | FireEvent EventTypes jsval
  | LogDebug OpenIdConfiguration string

text \<open>
  What the collaborators answer. \<open>StoragePersistenceService\<close> and
  \<open>TokenValidationService\<close> are injected through the constructor and their code is
  not part of the two services, so their behaviour is a parameter: any persistence
  adapter over any storage type \<open>'st\<close>, any token validator. \<open>decodeURIComponent\<close>
  is the platform's function; it converts its argument to a string and throws
  \<open>URIError\<close> on a malformed escape sequence.
\<close>

record 'st collaborators =
  storageRead :: "string \<Rightarrow> OpenIdConfiguration \<Rightarrow> 'st \<Rightarrow> jsval"
  storageWrite :: "string \<Rightarrow> jsval \<Rightarrow> OpenIdConfiguration \<Rightarrow> 'st \<Rightarrow> 'st"
  storageResetAuthStateInStorage :: "OpenIdConfiguration \<Rightarrow> 'st \<Rightarrow> 'st"
  storageGetAccessToken :: "OpenIdConfiguration \<Rightarrow> 'st \<Rightarrow> jsval"
  storageGetIdToken :: "OpenIdConfiguration \<Rightarrow> 'st \<Rightarrow> jsval"
  storageGetRefreshToken :: "OpenIdConfiguration \<Rightarrow> 'st \<Rightarrow> jsval"
  storageGetAuthenticationResult :: "OpenIdConfiguration \<Rightarrow> 'st \<Rightarrow> jsval"
  hasIdTokenExpired :: "jsval \<Rightarrow> OpenIdConfiguration \<Rightarrow> int \<Rightarrow> bool"
  validateAccessTokenNotExpired :: "jsval \<Rightarrow> OpenIdConfiguration \<Rightarrow> int \<Rightarrow> bool"
  decodeURIComponent :: "jsval \<Rightarrow> js_error + string"

text \<open>
  A JavaScript object has an identity besides its content: \<open>===\<close> on two objects
  compares identities. An object is a reference (the allocation counter at the time the
  object literal was evaluated) paired with its content.
\<close>

type_synonym 'a obj = "nat \<times> 'a"

text \<open>
  One subscription to \<open>authenticated$\<close>: the last key \<open>distinctUntilChanged()\<close>
  let through (the operator is used without a comparator, so keys are compared with
  \<open>===\<close>), and the values the subscriber has been handed.
\<close>

record subscriber =
  lastKey :: "nat option"
  received :: "AuthenticatedResult list"

record 'st world =
  storage :: 'st
  clock :: int
  calls :: "call list"
  nextRef :: nat
  authenticatedInternal :: "AuthenticatedResult obj"
  subscribers :: "subscriber list"

text \<open>
  A fresh service: the module constant \<open>DEFAULT_AUTHRESULT\<close> is object 0 and the
  \<open>BehaviorSubject\<close> holds it.
\<close>

definition initialWorld :: "'st \<Rightarrow> int \<Rightarrow> 'st world" where
  "initialWorld st now =
     \<lparr>storage = st, clock = now, calls = [], nextRef = 1,
      authenticatedInternal = (0, DEFAULT_AUTHRESULT), subscribers = []\<rparr>"

definition called :: "call \<Rightarrow> 'st world \<Rightarrow> 'st world" where
  "called c w = w\<lparr>calls := calls w @ [c]\<rparr>"

definition newObject :: "'a \<Rightarrow> 'st world \<Rightarrow> 'a obj \<times> 'st world" where
  "newObject v w = ((nextRef w, v), w\<lparr>nextRef := Suc (nextRef w)\<rparr>)"

subsection \<open>Calls on the collaborators\<close>

definition spRead ::
  "'st collaborators \<Rightarrow> string \<Rightarrow> OpenIdConfiguration \<Rightarrow> 'st world \<Rightarrow> jsval \<times> 'st world" where
  "spRead deps key cfg w = (storageRead deps key cfg (storage w), called (StorageRead key cfg) w)"

definition spWrite ::
  "'st collaborators \<Rightarrow> string \<Rightarrow> jsval \<Rightarrow> OpenIdConfiguration \<Rightarrow> 'st world \<Rightarrow> 'st world" where
  "spWrite deps key v cfg w =
     called (StorageWrite key v cfg) (w\<lparr>storage := storageWrite deps key v cfg (storage w)\<rparr>)"

definition spResetAuthStateInStorage ::
  "'st collaborators \<Rightarrow> OpenIdConfiguration \<Rightarrow> 'st world \<Rightarrow> 'st world" where
  "spResetAuthStateInStorage deps cfg w =
     called (StorageResetAuthStateInStorage cfg)
       (w\<lparr>storage := storageResetAuthStateInStorage deps cfg (storage w)\<rparr>)"

definition spGetAccessToken ::
  "'st collaborators \<Rightarrow> OpenIdConfiguration \<Rightarrow> 'st world \<Rightarrow> jsval \<times> 'st world" where
  "spGetAccessToken deps cfg w =
     (storageGetAccessToken deps cfg (storage w), called (StorageGetAccessToken cfg) w)"

definition spGetIdToken ::
  "'st collaborators \<Rightarrow> OpenIdConfiguration \<Rightarrow> 'st world \<Rightarrow> jsval \<times> 'st world" where
  "spGetIdToken deps cfg w =
     (storageGetIdToken deps cfg (storage w), called (StorageGetIdToken cfg) w)"

definition spGetRefreshToken ::
  "'st collaborators \<Rightarrow> OpenIdConfiguration \<Rightarrow> 'st world \<Rightarrow> jsval \<times> 'st world" where
  "spGetRefreshToken deps cfg w =
     (storageGetRefreshToken deps cfg (storage w), called (StorageGetRefreshToken cfg) w)"

definition spGetAuthenticationResult ::
  "'st collaborators \<Rightarrow> OpenIdConfiguration \<Rightarrow> 'st world \<Rightarrow> jsval \<times> 'st world" where
  "spGetAuthenticationResult deps cfg w =
     (storageGetAuthenticationResult deps cfg (storage w),
      called (StorageGetAuthenticationResult cfg) w)"

definition tvHasIdTokenExpired ::
  "'st collaborators \<Rightarrow> jsval \<Rightarrow> OpenIdConfiguration \<Rightarrow> int \<Rightarrow> 'st world \<Rightarrow> bool \<times> 'st world" where
  "tvHasIdTokenExpired deps token cfg skew w =
     (hasIdTokenExpired deps token cfg skew, called (HasIdTokenExpired token cfg skew) w)"

definition tvValidateAccessTokenNotExpired ::
  "'st collaborators \<Rightarrow> jsval \<Rightarrow> OpenIdConfiguration \<Rightarrow> int \<Rightarrow> 'st world \<Rightarrow> bool \<times> 'st world" where
  "tvValidateAccessTokenNotExpired deps expiresAt cfg skew w =
     (validateAccessTokenNotExpired deps expiresAt cfg skew,
      called (ValidateAccessTokenNotExpired expiresAt cfg skew) w)"

definition fireEvent :: "EventTypes \<Rightarrow> jsval \<Rightarrow> 'st world \<Rightarrow> 'st world" where
  "fireEvent eventType payload w = called (FireEvent eventType payload) w"

definition logDebug :: "OpenIdConfiguration \<Rightarrow> string \<Rightarrow> 'st world \<Rightarrow> 'st world" where
  "logDebug cfg message w = called (LogDebug cfg message) w"

text \<open>
  \<open>BehaviorSubject.next(v)\<close>: the subject keeps \<open>v\<close> and hands it to every
  subscription; \<open>distinctUntilChanged()\<close> in front of the subscriber drops it when
  its key is identical (\<open>===\<close>) to the last key let through.
\<close>

definition distinctUntilChanged :: "AuthenticatedResult obj \<Rightarrow> subscriber \<Rightarrow> subscriber" where
  "distinctUntilChanged v sub =
     (if lastKey sub = Some (fst v) then sub
      else sub\<lparr>lastKey := Some (fst v), received := received sub @ [snd v]\<rparr>)"

definition subjectNext :: "AuthenticatedResult obj \<Rightarrow> 'st world \<Rightarrow> 'st world" where
  "subjectNext v w =
     w\<lparr>authenticatedInternal := v, subscribers := map (distinctUntilChanged v) (subscribers w)\<rparr>"

text \<open>
  \<open>authenticated$.subscribe(...)\<close>: a new subscription at the end of the list; a
  \<open>BehaviorSubject\<close> hands its current value to a new subscriber at once.
\<close>

definition subscribe :: "'st world \<Rightarrow> 'st world" where
  "subscribe w =
     w\<lparr>subscribers := subscribers w @
         [distinctUntilChanged (authenticatedInternal w) \<lparr>lastKey = None, received = []\<rparr>]\<rparr>"

subsection \<open>The service's methods\<close>

text \<open>
  \<open>!!getAccessToken(c) && !!getIdToken(c)\<close>: the id token is read only when the
  access token is truthy.
\<close>

definition isAuthenticated ::
  "'st collaborators \<Rightarrow> OpenIdConfiguration \<Rightarrow> 'st world \<Rightarrow> bool \<times> 'st world" where
  "isAuthenticated deps configuration w =
     (let (accessToken, w1) = spGetAccessToken deps configuration w
      in if \<not> truthy accessToken then (False, w1)
         else (let (idToken, w2) = spGetIdToken deps configuration w1
               in (truthy idToken, w2)))"

definition decodeURIComponentSafely :: "'st collaborators \<Rightarrow> jsval \<Rightarrow> js_error + string" where
  "decodeURIComponentSafely deps token =
     (if truthy token then decodeURIComponent deps token else Inr [])"

text \<open>
  A getter returns a value (\<open>Inr\<close>) or throws (\<open>Inl\<close>); the calls made before the
  throw stay made.
\<close>

definition returnString :: "js_error + string \<Rightarrow> js_error + jsval" where
  "returnString r = (case r of Inl e \<Rightarrow> Inl e | Inr s \<Rightarrow> Inr (JStr s))"

definition getAccessToken ::
  "'st collaborators \<Rightarrow> OpenIdConfiguration \<Rightarrow> 'st world \<Rightarrow> (js_error + jsval) \<times> 'st world" where
  "getAccessToken deps configuration w =
     (let (authenticated, w1) = isAuthenticated deps configuration w
      in if \<not> authenticated then (Inr JNull, w1)
         else (let (token, w2) = spGetAccessToken deps configuration w1
               in (returnString (decodeURIComponentSafely deps token), w2)))"

definition getIdToken ::
  "'st collaborators \<Rightarrow> OpenIdConfiguration \<Rightarrow> 'st world \<Rightarrow> (js_error + jsval) \<times> 'st world" where
  "getIdToken deps configuration w =
     (let (authenticated, w1) = isAuthenticated deps configuration w
      in if \<not> authenticated then (Inr JNull, w1)
         else (let (token, w2) = spGetIdToken deps configuration w1
               in (returnString (decodeURIComponentSafely deps token), w2)))"

definition getRefreshToken ::
  "'st collaborators \<Rightarrow> OpenIdConfiguration \<Rightarrow> 'st world \<Rightarrow> (js_error + jsval) \<times> 'st world" where
  "getRefreshToken deps configuration w =
     (let (authenticated, w1) = isAuthenticated deps configuration w
      in if \<not> authenticated then (Inr JNull, w1)
         else (let (token, w2) = spGetRefreshToken deps configuration w1
               in (returnString (decodeURIComponentSafely deps token), w2)))"

definition getAuthenticationResult ::
  "'st collaborators \<Rightarrow> OpenIdConfiguration \<Rightarrow> 'st world \<Rightarrow> (js_error + jsval) \<times> 'st world" where
  "getAuthenticationResult deps configuration w =
     (let (authenticated, w1) = isAuthenticated deps configuration w
      in if \<not> authenticated then (Inr JNull, w1)
         else (let (r, w2) = spGetAuthenticationResult deps configuration w1
               in (Inr r, w2)))"

definition hasIdTokenExpiredAndRenewCheckIsEnabled ::
  "'st collaborators \<Rightarrow> OpenIdConfiguration \<Rightarrow> 'st world \<Rightarrow> bool \<times> 'st world" where
  "hasIdTokenExpiredAndRenewCheckIsEnabled deps configuration w =
     (if \<not> enableIdTokenExpiredValidationInRenew configuration then (False, w)
      else (let (tokenToCheck, w1) = spGetIdToken deps configuration w;
                (idTokenExpired, w2) =
                  tvHasIdTokenExpired deps tokenToCheck configuration
                    (renewTimeBeforeTokenExpiresInSeconds configuration) w1;
                w3 = (if idTokenExpired
                      then fireEvent IdTokenExpired (JBool idTokenExpired) w2 else w2)
            in (idTokenExpired, w3)))"

definition hasAccessTokenExpiredIfExpiryExists ::
  "'st collaborators \<Rightarrow> OpenIdConfiguration \<Rightarrow> 'st world \<Rightarrow> bool \<times> 'st world" where
  "hasAccessTokenExpiredIfExpiryExists deps configuration w =
     (let (accessTokenExpiresIn, w1) = spRead deps ''access_token_expires_at'' configuration w;
          (accessTokenHasNotExpired, w2) =
            tvValidateAccessTokenNotExpired deps accessTokenExpiresIn configuration
              (renewTimeBeforeTokenExpiresInSeconds configuration) w1;
          hasExpired = (\<not> accessTokenHasNotExpired);
          w3 = (if hasExpired then fireEvent TokenExpired (JBool hasExpired) w2 else w2)
      in (hasExpired, w3))"

definition areAuthStorageTokensValid ::
  "'st collaborators \<Rightarrow> OpenIdConfiguration \<Rightarrow> 'st world \<Rightarrow> bool \<times> 'st world" where
  "areAuthStorageTokensValid deps configuration w =
     (let (authenticated, w1) = isAuthenticated deps configuration w
      in if \<not> authenticated then (False, w1)
         else (let (idExpired, w2) = hasIdTokenExpiredAndRenewCheckIsEnabled deps configuration w1
               in if idExpired
                  then (False, logDebug configuration ''persisted idToken is expired'' w2)
                  else (let (accessExpired, w3) =
                              hasAccessTokenExpiredIfExpiryExists deps configuration w2
                        in if accessExpired
                           then (False,
                                 logDebug configuration ''persisted accessToken is expired'' w3)
                           else (True,
                                 logDebug configuration
                                   ''persisted idToken and accessToken are valid'' w3))))"

text \<open>
  The clock of a running system: a time from 1970 to the end of the year 9999, in
  milliseconds. The string forms of a date and the reading of them are settled for
  these years; for others they differ between platforms.
\<close>

definition realClock :: "int \<Rightarrow> bool" where
  "realClock t = (0 \<le> t \<and> t < 253402300800000)"

text \<open>
  \<open>new Date(new Date().toUTCString()).valueOf()\<close>: \<open>toUTCString\<close> prints the
  time to the second, so reading the string back gives the clock's milliseconds rounded
  down to a whole second. \<open>None\<close>: the clock is not one of a running system, and
  what the platform reads back is not modelled.
\<close>

definition utcNow :: "'st world \<Rightarrow> int option" where
  "utcNow w = (if realClock (clock w) then Some ((clock w div 1000) * 1000) else None)"

text \<open>
  \<open>if (authResult?.expires_in)\<close> tests truthiness: absent and 0 both skip. The
  expiry is computed on numbers. \<open>None\<close>: the world after the call is not
  modelled, because the clock is not a real one or the expiry is infinite.
\<close>

definition persistAccessTokenExpirationTime ::
  "'st collaborators \<Rightarrow> AuthResult option \<Rightarrow> OpenIdConfiguration \<Rightarrow> 'st world \<Rightarrow>
     'st world option" where
  "persistAccessTokenExpirationTime deps authResult configuration w =
     (case authResult of
        None \<Rightarrow> Some w
      | Some r \<Rightarrow>
          (case expires_in r of
             None \<Rightarrow> Some w
           | Some e \<Rightarrow>
               if e \<noteq> 0
               then (case utcNow w of
                       None \<Rightarrow> None
                     | Some now \<Rightarrow>
                         (case numberTimes e 1000 of
                            None \<Rightarrow> None
                          | Some lifetime \<Rightarrow>
                              (case numberPlus now lifetime of
                                 None \<Rightarrow> None
                               | Some accessTokenExpiryTime \<Rightarrow>
                                   Some (spWrite deps ''access_token_expires_at''
                                           (JNum accessTokenExpiryTime) configuration w))))
               else Some w))"

definition checkAllConfigsIfTheyAreAuthenticated ::
  "'st collaborators \<Rightarrow> OpenIdConfiguration list \<Rightarrow> 'st world \<Rightarrow> AuthenticatedResult obj \<times> 'st world" where
  "checkAllConfigsIfTheyAreAuthenticated deps configurations w =
     (let (allConfigs, w1) =
            mapS (\<lambda>config v.
                    (let (a, v') = isAuthenticated deps config v
                     in (\<lparr>resultConfigId = configId config, resultIsAuthenticated = a\<rparr>, v')))
              configurations w;
          authenticated = list_all (\<lambda>x. resultIsAuthenticated x) allConfigs
      in newObject
           \<lparr>aggregateIsAuthenticated = authenticated, allConfigsAuthenticated = allConfigs\<rparr> w1)"

definition composeAuthenticatedResult ::
  "'st collaborators \<Rightarrow> OpenIdConfiguration list \<Rightarrow> 'st world \<Rightarrow> AuthenticatedResult obj \<times> 'st world" where
  "composeAuthenticatedResult deps configurations w =
     (if length configurations = 1
      then (let c = hd configurations
            in newObject
                 \<lparr>aggregateIsAuthenticated = True,
                  allConfigsAuthenticated =
                    [\<lparr>resultConfigId = configId c, resultIsAuthenticated = True\<rparr>]\<rparr> w)
      else checkAllConfigsIfTheyAreAuthenticated deps configurations w)"

definition composeUnAuthenticatedResult ::
  "'st collaborators \<Rightarrow> OpenIdConfiguration list \<Rightarrow> 'st world \<Rightarrow> AuthenticatedResult obj \<times> 'st world" where
  "composeUnAuthenticatedResult deps configurations w =
     (if length configurations = 1
      then (let c = hd configurations
            in newObject
                 \<lparr>aggregateIsAuthenticated = False,
                  allConfigsAuthenticated =
                    [\<lparr>resultConfigId = configId c, resultIsAuthenticated = False\<rparr>]\<rparr> w)
      else checkAllConfigsIfTheyAreAuthenticated deps configurations w)"

definition setAuthenticatedAndFireEvent ::
  "'st collaborators \<Rightarrow> OpenIdConfiguration list \<Rightarrow> 'st world \<Rightarrow> 'st world" where
  "setAuthenticatedAndFireEvent deps configurations w =
     (let (result, w1) = composeAuthenticatedResult deps configurations w
      in subjectNext result w1)"

definition setUnauthenticatedAndFireEvent ::
  "'st collaborators \<Rightarrow> OpenIdConfiguration \<Rightarrow> 'st world \<Rightarrow> 'st world" where
  "setUnauthenticatedAndFireEvent deps configuration w =
     (let w1 = spResetAuthStateInStorage deps configuration w;
          (result, w2) = composeUnAuthenticatedResult deps [configuration] w1
      in subjectNext result w2)"

definition updateAndPublishAuthState :: "jsval \<Rightarrow> 'st world \<Rightarrow> 'st world" where
  "updateAndPublishAuthState authenticationResult w =
     fireEvent NewAuthenticationResult authenticationResult w"

definition setAuthorizationData ::
  "'st collaborators \<Rightarrow> string \<Rightarrow> AuthResult option \<Rightarrow> OpenIdConfiguration \<Rightarrow> 'st world \<Rightarrow>
     'st world option" where
  "setAuthorizationData deps accessToken authResult configuration w =
     (let w1 = logDebug configuration
                 (''storing the accessToken '' @ [CHR 0x27] @ accessToken @ [CHR 0x27]) w;
          w2 = spWrite deps ''authzData'' (JStr accessToken) configuration w1
      in case persistAccessTokenExpirationTime deps authResult configuration w2 of
           None \<Rightarrow> None
         | Some w3 \<Rightarrow> Some (setAuthenticatedAndFireEvent deps [configuration] w3))"

section \<open>Collaborators to run the service against\<close>

text \<open>
  The theorems below hold for every persistence adapter, token validator and decoder.
  To evaluate the service at concrete inputs it needs concrete ones; these follow the
  interfaces the service calls.
\<close>

subsection \<open>A key/value persistence adapter\<close>

text \<open>
  Modelled from the spec: \<open>StoragePersistenceService\<close> is not among the sources. It
  is a per-configuration key/value store: \<open>read\<close> gives the value or undefined,
  \<open>write\<close> stores, \<open>resetAuthStateInStorage\<close> clears the configuration's
  entries, and the access token is the entry \<open>authzData\<close>. Where the other typed
  accessors find their values is this adapter's choice (the authentication result under
  \<open>authnResult\<close>, the id and refresh tokens as its properties).
\<close>

type_synonym kvStorage = "string \<times> string \<Rightarrow> jsval"

definition emptyStorage :: kvStorage where
  "emptyStorage = (\<lambda>k. JUndefined)"

fun property :: "jsval \<Rightarrow> string \<Rightarrow> jsval" where
  "property (JObj fs) name = (case map_of fs name of Some v \<Rightarrow> v | None \<Rightarrow> JUndefined)"
| "property v name = JUndefined"

definition kvRead :: "string \<Rightarrow> OpenIdConfiguration \<Rightarrow> kvStorage \<Rightarrow> jsval" where
  "kvRead key cfg st = st (configId cfg, key)"

definition kvWrite :: "string \<Rightarrow> jsval \<Rightarrow> OpenIdConfiguration \<Rightarrow> kvStorage \<Rightarrow> kvStorage" where
  "kvWrite key v cfg st = st((configId cfg, key) := v)"

definition kvResetAuthStateInStorage :: "OpenIdConfiguration \<Rightarrow> kvStorage \<Rightarrow> kvStorage" where
  "kvResetAuthStateInStorage cfg st =
     (\<lambda>k. if fst k = configId cfg then JUndefined else st k)"

subsection \<open>A token validator\<close>

text \<open>
  Modelled from the spec: \<open>TokenValidationService\<close> is not among the sources. An id
  token has expired when its expiry claim, less the skew, is at or before the current
  time, and a token without a readable claim has expired; an access token is still valid
  when no expiry is stored or the stored expiry, less the skew, lies after the current
  time. Reading the claim out of a token is the parameter \<open>expiryClaim\<close>
  (milliseconds).
\<close>

definition specHasIdTokenExpired ::
  "int \<Rightarrow> (jsval \<Rightarrow> int option) \<Rightarrow> jsval \<Rightarrow> OpenIdConfiguration \<Rightarrow> int \<Rightarrow> bool" where
  "specHasIdTokenExpired now expiryClaim token cfg skewSeconds =
     (case expiryClaim token of
        None \<Rightarrow> True
      | Some e \<Rightarrow> e - skewSeconds * 1000 \<le> now)"

definition specValidateAccessTokenNotExpired ::
  "int \<Rightarrow> jsval \<Rightarrow> OpenIdConfiguration \<Rightarrow> int \<Rightarrow> bool" where
  "specValidateAccessTokenNotExpired now expiresAt cfg skewSeconds =
     (case expiresAt of
        JNum e \<Rightarrow> e - skewSeconds * 1000 > now
      | _ \<Rightarrow> True)"

subsection \<open>Percent decoding\<close>

text \<open>
  \<open>decodeURIComponent\<close> on strings of bytes (a JavaScript string in UTF-8): \<open>%XX\<close>
  with two hexadecimal digits is the octet \<open>XX\<close>; an octet below 128 is that
  character; a higher octet must start a well-formed UTF-8 sequence whose other octets
  are escaped as well. Anything else after \<open>%\<close> is a \<open>URIError\<close>.
\<close>

definition hexDigit :: "char \<Rightarrow> nat option" where
  "hexDigit c =
     (let n = (of_char c :: nat)
      in if 48 \<le> n \<and> n \<le> 57 then Some (n - 48)
         else if 65 \<le> n \<and> n \<le> 70 then Some (n - 55)
         else if 97 \<le> n \<and> n \<le> 102 then Some (n - 87)
         else None)"

fun readEscape :: "string \<Rightarrow> (nat \<times> string) option" where
  "readEscape (p # h # l # rest) =
     (if p = CHR ''%''
      then (case (hexDigit h, hexDigit l) of
              (Some a, Some b) \<Rightarrow> Some (16 * a + b, rest)
            | _ \<Rightarrow> None)
      else None)"
| "readEscape cs = None"

text \<open>The \<open>n\<close> escaped continuation octets (\<open>10xxxxxx\<close>) of a sequence.\<close>

fun readContinuation :: "nat \<Rightarrow> string \<Rightarrow> (nat list \<times> string) option" where
  "readContinuation 0 cs = Some ([], cs)"
| "readContinuation (Suc n) cs =
     (case readEscape cs of
        None \<Rightarrow> None
      | Some (b, rest) \<Rightarrow>
          if 128 \<le> b \<and> b < 192
          then (case readContinuation n rest of
                  None \<Rightarrow> None
                | Some (bs, rest') \<Rightarrow> Some (b # bs, rest'))
          else None)"

text \<open>
  How many continuation octets a leading octet announces: none for \<open>10xxxxxx\<close> and
  for five or more leading ones.
\<close>

definition continuationCount :: "nat \<Rightarrow> nat option" where
  "continuationCount b =
     (if 192 \<le> b \<and> b < 224 then Some 1
      else if 224 \<le> b \<and> b < 240 then Some 2
      else if 240 \<le> b \<and> b < 248 then Some 3
      else None)"

text \<open>
  The octets encode a code point: not an overlong form, not a surrogate, not beyond
  U+10FFFF.
\<close>

fun wellFormedUTF8 :: "nat list \<Rightarrow> bool" where
  "wellFormedUTF8 [a, b] = (194 \<le> a)"
| "wellFormedUTF8 [a, b, c] =
     ((a = 224 \<longrightarrow> 160 \<le> b) \<and> (a = 237 \<longrightarrow> b < 160))"
| "wellFormedUTF8 [a, b, c, d] =
     ((a = 240 \<longrightarrow> 144 \<le> b) \<and> (a = 244 \<longrightarrow> b < 144) \<and> a \<le> 244)"
| "wellFormedUTF8 bs = False"

definition consDecoded :: "string \<Rightarrow> js_error + string \<Rightarrow> js_error + string" where
  "consDecoded cs r = (case r of Inl e \<Rightarrow> Inl e | Inr s \<Rightarrow> Inr (cs @ s))"

function percentDecode :: "string \<Rightarrow> js_error + string" where
  "percentDecode [] = Inr []"
| "percentDecode (c # cs) =
     (if c \<noteq> CHR ''%'' then consDecoded [c] (percentDecode cs)
      else (case readEscape (c # cs) of
              None \<Rightarrow> Inl URIError
            | Some (b, rest) \<Rightarrow>
                if b < 128 then consDecoded [char_of b] (percentDecode rest)
                else (case continuationCount b of
                        None \<Rightarrow> Inl URIError
                      | Some n \<Rightarrow>
                          (case readContinuation n rest of
                             None \<Rightarrow> Inl URIError
                           | Some (bs, rest') \<Rightarrow>
                               if wellFormedUTF8 (b # bs)
                               then consDecoded (map char_of (b # bs)) (percentDecode rest')
                               else Inl URIError))))"
  by pat_completeness auto

lemma readEscape_shorter: "readEscape cs = Some (b, rest) \<Longrightarrow> length rest < length cs"
  by (induction cs rule: readEscape.induct) (auto split: if_splits option.splits)

lemma readContinuation_not_longer:
  "readContinuation n cs = Some (bs, rest) \<Longrightarrow> length rest \<le> length cs"
proof (induction n arbitrary: cs bs rest)
  case 0
  then show ?case by simp
next
  case (Suc n)
  then show ?case
    by (fastforce split: option.splits prod.splits if_splits dest: readEscape_shorter)
qed

termination percentDecode
proof (relation "measure length", goal_cases)
  case 1
  show ?case by simp
next
  case (2 c cs)
  show ?case by simp
next
  case (3 c cs x2 b rest)
  then show ?case
    using readEscape_shorter [of "c # cs" b rest] by simp
next
  case (4 c cs x2 b rest n x2a bs rest')
  then show ?case
    using readEscape_shorter [of "c # cs" b rest] readContinuation_not_longer [of n rest bs rest']
    by simp
qed

text \<open>
  JavaScript's conversion of a value to a string, which the decoder applies first. A
  number prints with the fewest digits that read back as the same double (of two such,
  the nearer); the digits are followed by zeros up to 21 places and written with an
  exponent beyond.
\<close>

definition digitChar :: "nat \<Rightarrow> char" where
  "digitChar d = char_of (48 + d)"

fun decimal :: "nat \<Rightarrow> string" where
  "decimal n = (if n < 10 then [digitChar n] else decimal (n div 10) @ [digitChar (n mod 10)])"

text \<open>
  The multiple of the largest power of ten, from \<open>10 ^ e\<close> down, that reads back
  as the double \<open>d\<close>.
\<close>

fun shortestDecimal :: "nat \<Rightarrow> nat \<Rightarrow> nat" where
  "shortestDecimal d 0 = d"
| "shortestDecimal d (Suc e) =
     (let p = 10 ^ Suc e;
          f = d div p;
          lo = f * p;
          hi = (f + 1) * p;
          okLo = (nearestDouble lo = Some d);
          okHi = (nearestDouble hi = Some d)
      in if okLo \<and> okHi
         then (if d - lo < hi - d \<or> (d - lo = hi - d \<and> even f) then lo else hi)
         else if okLo then lo
         else if okHi then hi
         else shortestDecimal d e)"

definition dropZeros :: "string \<Rightarrow> string" where
  "dropZeros cs = rev (dropWhile (\<lambda>c. c = CHR ''0'') (rev cs))"

definition numberToString :: "nat \<Rightarrow> string" where
  "numberToString m =
     (case nearestDouble m of
        None \<Rightarrow> ''Infinity''
      | Some d \<Rightarrow>
          (let digits = decimal (shortestDecimal d (length (decimal d) - 1));
               n = length digits;
               s = dropZeros digits
           in if n \<le> 21 then digits
              else if length s = 1 then s @ ''e+'' @ decimal (n - 1)
              else hd s # CHR ''.'' # tl s @ ''e+'' @ decimal (n - 1)))"

fun toString :: "jsval \<Rightarrow> string" where
  "toString JUndefined = ''undefined''"
| "toString JNull = ''null''"
| "toString (JBool b) = (if b then ''true'' else ''false'')"
| "toString (JNum n) =
     (if n < 0 then CHR ''-'' # numberToString (nat (- n)) else numberToString (nat n))"
| "toString (JStr s) = s"
| "toString (JObj fs) = ''[object Object]''"

definition jsDecodeURIComponent :: "jsval \<Rightarrow> js_error + string" where
  "jsDecodeURIComponent v = percentDecode (toString v)"

subsection \<open>The collaborators put together\<close>

definition kvCollaborators :: "int \<Rightarrow> (jsval \<Rightarrow> int option) \<Rightarrow> kvStorage collaborators" where
  "kvCollaborators now expiryClaim =
     \<lparr>storageRead = kvRead,
      storageWrite = kvWrite,
      storageResetAuthStateInStorage = kvResetAuthStateInStorage,
      storageGetAccessToken = kvRead ''authzData'',
      storageGetIdToken = (\<lambda>cfg st. property (kvRead ''authnResult'' cfg st) ''id_token''),
      storageGetRefreshToken =
        (\<lambda>cfg st. property (kvRead ''authnResult'' cfg st) ''refresh_token''),
      storageGetAuthenticationResult = kvRead ''authnResult'',
      hasIdTokenExpired = specHasIdTokenExpired now expiryClaim,
      validateAccessTokenNotExpired = specValidateAccessTokenNotExpired now,
      decodeURIComponent = jsDecodeURIComponent\<rparr>"

subsection \<open>Configurations, stored sessions and rules to evaluate on\<close>

definition configA :: OpenIdConfiguration where
  "configA = \<lparr>configId = ''a'', renewTimeBeforeTokenExpiresInSeconds = 30,
              enableIdTokenExpiredValidationInRenew = True\<rparr>"

definition configB :: OpenIdConfiguration where
  "configB = \<lparr>configId = ''b'', renewTimeBeforeTokenExpiresInSeconds = 30,
              enableIdTokenExpiredValidationInRenew = False\<rparr>"

text \<open>A storage in which \<open>cfg\<close> has an access token and an authentication result.\<close>

definition signedIn :: "OpenIdConfiguration \<Rightarrow> jsval \<Rightarrow> jsval \<Rightarrow> kvStorage \<Rightarrow> kvStorage" where
  "signedIn cfg accessToken authnResult st =
     kvWrite ''authnResult'' authnResult cfg (kvWrite ''authzData'' accessToken cfg st)"

text \<open>A token validator that finds no expiry claim in any token: every id token has expired.\<close>

definition noClaim :: "jsval \<Rightarrow> int option" where
  "noClaim token = None"

text \<open>
  Modelled from the spec: the rule tables \<open>allRules\<close> and
  \<open>allMultipleConfigRules\<close> are not among the sources. A rule maps what it is given
  to a level and a list of messages. \<open>passing\<close> carries no message.
  \<open>noDuplicateConfigIds\<close> is a rule over the whole set of configurations, the
  spec's example of one: it reports an error when two of them share a \<open>configId\<close>;
  in a single configuration there is nothing for it to compare.
\<close>

definition passing :: RuleValidationResult where
  "passing = \<lparr>messages = [], level = []\<rparr>"

definition deprecatedSetting :: rule where
  "deprecatedSetting arg = \<lparr>messages = [''setting is deprecated''], level = ''warning''\<rparr>"

definition authorityMissing :: rule where
  "authorityMissing arg = \<lparr>messages = [''authority is missing''], level = ''error''\<rparr>"

definition noDuplicateConfigIds :: rule where
  "noDuplicateConfigIds arg =
     (case arg of
        Configs cs \<Rightarrow>
          if distinct (map configId cs) then passing
          else \<lparr>messages = [''configId is used twice''], level = ''error''\<rparr>
      | Config c \<Rightarrow> passing)"

subsection \<open>An invariant of the object references\<close>

text \<open>
  Every key a subscription remembers, and the subject's current object, were allocated
  before the next object will be.
\<close>

definition keysAllocated :: "'st world \<Rightarrow> bool" where
  "keysAllocated w =
     (fst (authenticatedInternal w) < nextRef w \<and>
      list_all (\<lambda>s. case lastKey s of None \<Rightarrow> True | Some k \<Rightarrow> k < nextRef w) (subscribers w))"

section \<open>Properties of ConfigValidationService\<close>

lemma foldl_append_concat: "foldl (\<lambda>acc val. acc @ val) a xs = a @ concat xs"
  by (induction xs arbitrary: a) simp_all

lemma getAllMessagesOfType_concat:
  "getAllMessagesOfType t results = concat (map messages (filter (\<lambda>x. level x = t) results))"
  by (simp add: getAllMessagesOfType_def foldl_append_concat)

lemma errorCount_zero_iff:
  "fst (processValidationResultsAndGetErrorCount rs cid logged) = 0 \<longleftrightarrow>
     (\<forall>x\<in>set rs. level x = ''error'' \<longrightarrow> messages x = [])"
  by (auto simp add: processValidationResultsAndGetErrorCount_def Let_def
        getAllMessagesOfType_concat)

lemma validateConfigInternal_iff:
  "fst (validateConfigInternal c rules logged) \<longleftrightarrow>
     (\<forall>r\<in>set rules. level (r (Config c)) = ''error'' \<longrightarrow> messages (r (Config c)) = [])"
  using errorCount_zero_iff [of "map (\<lambda>rule. rule (Config c)) rules" "configId c" logged]
  by (simp add: validateConfigInternal_def Let_def case_prod_beta)

lemma fst_mapS_pure:
  assumes "\<And>x s. fst (f x s) = g x"
  shows "fst (mapS f xs s) = map g xs"
  using assms by (induction xs arbitrary: s) (simp_all add: Let_def case_prod_beta)

lemma mapS_keeps:
  assumes "\<And>x s. g (snd (f x s)) = g s"
  shows "g (snd (mapS f xs s)) = g s"
  using assms by (induction xs arbitrary: s) (simp_all add: Let_def case_prod_beta)

text \<open>
  What \<open>validateConfigs\<close> computes: every rule of the table applied to every single
  configuration, and no error-level message among the results.
\<close>

lemma validateConfigs_iff:
  "fst (validateConfigs rules cfgs logged) \<longleftrightarrow>
     (\<forall>c\<in>set cfgs. \<forall>r\<in>set rules.
        level (r (Config c)) = ''error'' \<longrightarrow> messages (r (Config c)) = [])"
proof -
  have "fst (mapS (\<lambda>passedConfig. validateConfigInternal passedConfig rules) cfgs logged) =
        map (\<lambda>c. \<forall>r\<in>set rules.
                    level (r (Config c)) = ''error'' \<longrightarrow> messages (r (Config c)) = []) cfgs"
    by (rule fst_mapS_pure) (simp add: validateConfigInternal_iff)
  then show ?thesis
    by (simp add: validateConfigs_def Let_def case_prod_beta list_all_iff)
qed

text \<open>
  The outcome and the log of \<open>validateConfigs\<close> depend on the rules only through
  what they answer to single configurations: what a rule would say about the list is
  never asked.
\<close>

lemma validateConfigs_asks_about_single_configurations:
  assumes "\<forall>c\<in>set cfgs. map (\<lambda>r. r (Config c)) rules = map (\<lambda>r. r (Config c)) rules'"
  shows "validateConfigs rules cfgs logged = validateConfigs rules' cfgs logged"
proof -
  have "mapS (\<lambda>passedConfig. validateConfigInternal passedConfig rules) cfgs logged =
        mapS (\<lambda>passedConfig. validateConfigInternal passedConfig rules') cfgs logged"
    using assms
    by (induction cfgs arbitrary: logged) (simp_all add: validateConfigInternal_def)
  then show ?thesis by (simp add: validateConfigs_def)
qed

text \<open>
  Claim C6. \<open>validateConfig\<close> returns true exactly when the rules of the
  single-configuration table produce no error-level message on the configuration. In
  particular it returns true when every result is of level warning, whatever the
  messages, and false as soon as one error-level result carries a message, whatever the
  other results are.
\<close>

theorem validateConfig_true_iff_no_error_message:
  "(fst (validateConfig allRules c logged) \<longleftrightarrow>
      (\<forall>r\<in>set allRules. level (r (Config c)) = ''error'' \<longrightarrow> messages (r (Config c)) = [])) \<and>
   ((\<forall>r\<in>set allRules. level (r (Config c)) = ''warning'') \<longrightarrow>
      fst (validateConfig allRules c logged)) \<and>
   ((\<exists>r\<in>set allRules. level (r (Config c)) = ''error'' \<and> messages (r (Config c)) \<noteq> []) \<longrightarrow>
      \<not> fst (validateConfig allRules c logged))"
  by (auto simp add: validateConfig_def validateConfigInternal_iff)

text \<open>
  A table with one warning validates; adding one rule that reports an error makes the
  same configuration fail.
\<close>

theorem validateConfig_true_iff_no_error_message_witness:
  "fst (validateConfig [deprecatedSetting] configA []) \<and>
   \<not> fst (validateConfig [deprecatedSetting, authorityMissing] configA [])"
  using validateConfig_true_iff_no_error_message [of "[deprecatedSetting]" configA "[]"]
    validateConfig_true_iff_no_error_message
      [of "[deprecatedSetting, authorityMissing]" configA "[]"]
  by (simp add: deprecatedSetting_def authorityMissing_def)

text \<open>
  Claim C2. The claim is that each multi-configuration rule is evaluated on the complete
  list of configurations. The service hands every rule one configuration at a time
  (\<open>rule(passedConfig)\<close>). Two configurations with the same \<open>configId\<close> therefore
  validate: the rule that reports the duplicate on the list is asked about each
  configuration alone, answers without a message, and nothing is logged.
\<close>

theorem validateConfigs_never_shows_the_list:
  "fst (validateConfigs [noDuplicateConfigIds] [configA, configA] []) = True \<and>
   snd (validateConfigs [noDuplicateConfigIds] [configA, configA] []) = [] \<and>
   noDuplicateConfigIds (Configs [configA, configA]) =
     \<lparr>messages = [''configId is used twice''], level = ''error''\<rparr>"
  by (simp add: validateConfigs_def validateConfigInternal_def
        processValidationResultsAndGetErrorCount_def getAllMessagesOfType_def
        noDuplicateConfigIds_def passing_def Let_def)

section \<open>Properties of AuthStateService\<close>

subsection \<open>What each query does\<close>

lemmas collaborator_calls =
  spRead_def spWrite_def spResetAuthStateInStorage_def spGetAccessToken_def spGetIdToken_def
  spGetRefreshToken_def spGetAuthenticationResult_def tvHasIdTokenExpired_def
  tvValidateAccessTokenNotExpired_def fireEvent_def logDebug_def called_def

lemmas kv_defs =
  kvCollaborators_def kvRead_def kvWrite_def kvResetAuthStateInStorage_def emptyStorage_def
  signedIn_def initialWorld_def specHasIdTokenExpired_def specValidateAccessTokenNotExpired_def
  noClaim_def configA_def configB_def DEFAULT_AUTHRESULT_def

lemmas decoder_defs =
  jsDecodeURIComponent_def hexDigit_def consDecoded_def continuationCount_def digitChar_def
  char_of_def bit_Suc_0_iff

lemma isAuthenticated_eq:
  "isAuthenticated deps c w =
     (truthy (storageGetAccessToken deps c (storage w)) \<and>
      truthy (storageGetIdToken deps c (storage w)),
      w\<lparr>calls := calls w @
           (StorageGetAccessToken c #
            (if truthy (storageGetAccessToken deps c (storage w))
             then [StorageGetIdToken c] else []))\<rparr>)"
  by (simp add: isAuthenticated_def collaborator_calls Let_def)

lemma hasIdTokenExpiredAndRenewCheckIsEnabled_eq:
  "hasIdTokenExpiredAndRenewCheckIsEnabled deps c w =
     (if \<not> enableIdTokenExpiredValidationInRenew c then (False, w)
      else (hasIdTokenExpired deps (storageGetIdToken deps c (storage w)) c
              (renewTimeBeforeTokenExpiresInSeconds c),
            w\<lparr>calls := calls w @
                 [StorageGetIdToken c,
                  HasIdTokenExpired (storageGetIdToken deps c (storage w)) c
                    (renewTimeBeforeTokenExpiresInSeconds c)] @
                 (if hasIdTokenExpired deps (storageGetIdToken deps c (storage w)) c
                       (renewTimeBeforeTokenExpiresInSeconds c)
                  then [FireEvent IdTokenExpired (JBool True)] else [])\<rparr>))"
  by (simp add: hasIdTokenExpiredAndRenewCheckIsEnabled_def collaborator_calls Let_def)

lemma hasAccessTokenExpiredIfExpiryExists_eq:
  "hasAccessTokenExpiredIfExpiryExists deps c w =
     (\<not> validateAccessTokenNotExpired deps
          (storageRead deps ''access_token_expires_at'' c (storage w)) c
          (renewTimeBeforeTokenExpiresInSeconds c),
      w\<lparr>calls := calls w @
           [StorageRead ''access_token_expires_at'' c,
            ValidateAccessTokenNotExpired
              (storageRead deps ''access_token_expires_at'' c (storage w)) c
              (renewTimeBeforeTokenExpiresInSeconds c)] @
           (if validateAccessTokenNotExpired deps
                 (storageRead deps ''access_token_expires_at'' c (storage w)) c
                 (renewTimeBeforeTokenExpiresInSeconds c)
            then [] else [FireEvent TokenExpired (JBool True)])\<rparr>)"
  by (simp add: hasAccessTokenExpiredIfExpiryExists_def collaborator_calls Let_def)

lemma getters_eq:
  "fst (getAccessToken deps c w) =
     (if fst (isAuthenticated deps c w)
      then returnString (decodeURIComponentSafely deps (storageGetAccessToken deps c (storage w)))
      else Inr JNull)"
  "fst (getIdToken deps c w) =
     (if fst (isAuthenticated deps c w)
      then returnString (decodeURIComponentSafely deps (storageGetIdToken deps c (storage w)))
      else Inr JNull)"
  "fst (getRefreshToken deps c w) =
     (if fst (isAuthenticated deps c w)
      then returnString (decodeURIComponentSafely deps (storageGetRefreshToken deps c (storage w)))
      else Inr JNull)"
  "fst (getAuthenticationResult deps c w) =
     (if fst (isAuthenticated deps c w)
      then Inr (storageGetAuthenticationResult deps c (storage w))
      else Inr JNull)"
  by (simp_all add: getAccessToken_def getIdToken_def getRefreshToken_def
        getAuthenticationResult_def isAuthenticated_eq collaborator_calls Let_def)

lemma setAuthenticatedAndFireEvent_single:
  "setAuthenticatedAndFireEvent deps [c] w =
     subjectNext
       (nextRef w,
        \<lparr>aggregateIsAuthenticated = True,
         allConfigsAuthenticated =
           [\<lparr>resultConfigId = configId c, resultIsAuthenticated = True\<rparr>]\<rparr>)
       (w\<lparr>nextRef := Suc (nextRef w)\<rparr>)"
  by (simp add: setAuthenticatedAndFireEvent_def composeAuthenticatedResult_def newObject_def)

subsection \<open>Presence of tokens\<close>

text \<open>
  Claim C10. \<open>isAuthenticated\<close> is the truthiness of the stored access token and
  of the stored id token. When either is the empty string, null or undefined it is
  false, and then every getter answers null and \<open>areAuthStorageTokensValid\<close> answers
  false: through the service an empty token looks like an absent one.
\<close>

theorem isAuthenticated_is_truthiness:
  fixes deps :: "'st collaborators" and c :: OpenIdConfiguration and w :: "'st world"
  defines "accessToken \<equiv> storageGetAccessToken deps c (storage w)"
    and "idToken \<equiv> storageGetIdToken deps c (storage w)"
  shows
    "fst (isAuthenticated deps c w) = (truthy accessToken \<and> truthy idToken) \<and>
     (accessToken \<in> {JStr [], JNull, JUndefined} \<or> idToken \<in> {JStr [], JNull, JUndefined} \<longrightarrow>
        fst (isAuthenticated deps c w) = False \<and>
        fst (getAccessToken deps c w) = Inr JNull \<and>
        fst (getIdToken deps c w) = Inr JNull \<and>
        fst (getRefreshToken deps c w) = Inr JNull \<and>
        fst (getAuthenticationResult deps c w) = Inr JNull \<and>
        fst (areAuthStorageTokensValid deps c w) = False)"
  unfolding accessToken_def idToken_def
  by (auto simp add: getters_eq isAuthenticated_eq areAuthStorageTokensValid_def Let_def)

text \<open>
  An id token is stored and the access token is the empty string: not authenticated, and
  the access token getter answers null.
\<close>

theorem isAuthenticated_is_truthiness_witness:
  "fst (isAuthenticated (kvCollaborators 1000 noClaim) configA
          (initialWorld
             (signedIn configA (JStr []) (JObj [(''id_token'', JStr ''idt'')]) emptyStorage)
             1000)) = False \<and>
   fst (getAccessToken (kvCollaborators 1000 noClaim) configA
          (initialWorld
             (signedIn configA (JStr []) (JObj [(''id_token'', JStr ''idt'')]) emptyStorage)
             1000)) = Inr JNull"
  using isAuthenticated_is_truthiness
    [of "kvCollaborators 1000 noClaim" configA
      "initialWorld
         (signedIn configA (JStr []) (JObj [(''id_token'', JStr ''idt'')]) emptyStorage) 1000"]
  by (simp add: kv_defs)

subsection \<open>Validity of the stored tokens\<close>

text \<open>
  Claim C5. \<open>areAuthStorageTokensValid\<close> checks presence, then the id token, then the
  access token, and stops at the first check that fails. The calls it makes on its
  collaborators show it. Not authenticated: false, and only the storage was asked for the
  tokens; no validator call, no event, no log. Authenticated and the id token expired
  under the renew check: false, after the id token check and its event; the access token
  check was not made. Otherwise the access token check follows the id token check (which
  makes no call at all when the flag is off), and the answer is true exactly when it finds
  the access token not expired.
\<close>

theorem areAuthStorageTokensValid_checks_in_order:
  fixes deps :: "'st collaborators" and c :: OpenIdConfiguration and w :: "'st world"
  defines "accessToken \<equiv> storageGetAccessToken deps c (storage w)"
    and "idToken \<equiv> storageGetIdToken deps c (storage w)"
    and "expiresAt \<equiv> storageRead deps ''access_token_expires_at'' c (storage w)"
    and "skew \<equiv> renewTimeBeforeTokenExpiresInSeconds c"
  defines "presence \<equiv>
             StorageGetAccessToken c # (if truthy accessToken then [StorageGetIdToken c] else [])"
    and "idCheck \<equiv>
           (if enableIdTokenExpiredValidationInRenew c
            then [StorageGetIdToken c, HasIdTokenExpired idToken c skew] else [])"
    and "accessCheck \<equiv>
           [StorageRead ''access_token_expires_at'' c,
            ValidateAccessTokenNotExpired expiresAt c skew]"
    and "idExpired \<equiv>
           enableIdTokenExpiredValidationInRenew c \<and> hasIdTokenExpired deps idToken c skew"
    and "accessExpired \<equiv> \<not> validateAccessTokenNotExpired deps expiresAt c skew"
  shows
    "(\<not> fst (isAuthenticated deps c w) \<longrightarrow>
        fst (areAuthStorageTokensValid deps c w) = False \<and>
        calls (snd (areAuthStorageTokensValid deps c w)) = calls w @ presence) \<and>
     (fst (isAuthenticated deps c w) \<and> idExpired \<longrightarrow>
        fst (areAuthStorageTokensValid deps c w) = False \<and>
        calls (snd (areAuthStorageTokensValid deps c w)) =
          calls w @ presence @ idCheck @
          [FireEvent IdTokenExpired (JBool True), LogDebug c ''persisted idToken is expired'']) \<and>
     (fst (isAuthenticated deps c w) \<and> \<not> idExpired \<and> accessExpired \<longrightarrow>
        fst (areAuthStorageTokensValid deps c w) = False \<and>
        calls (snd (areAuthStorageTokensValid deps c w)) =
          calls w @ presence @ idCheck @ accessCheck @
          [FireEvent TokenExpired (JBool True),
           LogDebug c ''persisted accessToken is expired'']) \<and>
     (fst (isAuthenticated deps c w) \<and> \<not> idExpired \<and> \<not> accessExpired \<longrightarrow>
        fst (areAuthStorageTokensValid deps c w) = True \<and>
        calls (snd (areAuthStorageTokensValid deps c w)) =
          calls w @ presence @ idCheck @ accessCheck @
          [LogDebug c ''persisted idToken and accessToken are valid''])"
  unfolding accessToken_def idToken_def expiresAt_def skew_def presence_def idCheck_def
    accessCheck_def idExpired_def accessExpired_def
  by (simp add: areAuthStorageTokensValid_def isAuthenticated_eq
        hasIdTokenExpiredAndRenewCheckIsEnabled_eq hasAccessTokenExpiredIfExpiryExists_eq
        logDebug_def called_def Let_def)

text \<open>
  The four outcomes at the time 1000. Nothing stored: one storage call and false. Tokens
  stored and the id token expired: false after the id token check, with no access token
  check among the calls. Renew check off and a stored expiry that has passed: false after
  the access token check. Renew check off and no stored expiry: true.
\<close>

theorem areAuthStorageTokensValid_checks_in_order_witness:
  "fst (areAuthStorageTokensValid (kvCollaborators 1000 noClaim) configA
          (initialWorld emptyStorage 1000)) = False \<and>
   calls (snd (areAuthStorageTokensValid (kvCollaborators 1000 noClaim) configA
          (initialWorld emptyStorage 1000))) = [StorageGetAccessToken configA] \<and>
   fst (areAuthStorageTokensValid (kvCollaborators 1000 noClaim) configA
          (initialWorld
             (signedIn configA (JStr ''at'') (JObj [(''id_token'', JStr ''idt'')]) emptyStorage)
             1000)) = False \<and>
   calls (snd (areAuthStorageTokensValid (kvCollaborators 1000 noClaim) configA
          (initialWorld
             (signedIn configA (JStr ''at'') (JObj [(''id_token'', JStr ''idt'')]) emptyStorage)
             1000))) =
     [StorageGetAccessToken configA, StorageGetIdToken configA,
      StorageGetIdToken configA, HasIdTokenExpired (JStr ''idt'') configA 30,
      FireEvent IdTokenExpired (JBool True),
      LogDebug configA ''persisted idToken is expired''] \<and>
   fst (areAuthStorageTokensValid (kvCollaborators 1000 noClaim) configB
          (initialWorld
             (kvWrite ''access_token_expires_at'' (JNum 500) configB
                (signedIn configB (JStr ''at'') (JObj [(''id_token'', JStr ''idt'')])
                   emptyStorage))
             1000)) = False \<and>
   calls (snd (areAuthStorageTokensValid (kvCollaborators 1000 noClaim) configB
          (initialWorld
             (kvWrite ''access_token_expires_at'' (JNum 500) configB
                (signedIn configB (JStr ''at'') (JObj [(''id_token'', JStr ''idt'')])
                   emptyStorage))
             1000))) =
     [StorageGetAccessToken configB, StorageGetIdToken configB,
      StorageRead ''access_token_expires_at'' configB,
      ValidateAccessTokenNotExpired (JNum 500) configB 30,
      FireEvent TokenExpired (JBool True),
      LogDebug configB ''persisted accessToken is expired''] \<and>
   fst (areAuthStorageTokensValid (kvCollaborators 1000 noClaim) configB
          (initialWorld
             (signedIn configB (JStr ''at'') (JObj [(''id_token'', JStr ''idt'')]) emptyStorage)
             1000)) = True \<and>
   calls (snd (areAuthStorageTokensValid (kvCollaborators 1000 noClaim) configB
          (initialWorld
             (signedIn configB (JStr ''at'') (JObj [(''id_token'', JStr ''idt'')]) emptyStorage)
             1000))) =
     [StorageGetAccessToken configB, StorageGetIdToken configB,
      StorageRead ''access_token_expires_at'' configB,
      ValidateAccessTokenNotExpired JUndefined configB 30,
      LogDebug configB ''persisted idToken and accessToken are valid'']"
  using areAuthStorageTokensValid_checks_in_order
      [of "kvCollaborators 1000 noClaim" configA "initialWorld emptyStorage 1000"]
    areAuthStorageTokensValid_checks_in_order
      [of "kvCollaborators 1000 noClaim" configA
        "initialWorld
           (signedIn configA (JStr ''at'') (JObj [(''id_token'', JStr ''idt'')]) emptyStorage)
           1000"]
    areAuthStorageTokensValid_checks_in_order
      [of "kvCollaborators 1000 noClaim" configB
        "initialWorld
           (kvWrite ''access_token_expires_at'' (JNum 500) configB
              (signedIn configB (JStr ''at'') (JObj [(''id_token'', JStr ''idt'')])
                 emptyStorage))
           1000"]
    areAuthStorageTokensValid_checks_in_order
      [of "kvCollaborators 1000 noClaim" configB
        "initialWorld
           (signedIn configB (JStr ''at'') (JObj [(''id_token'', JStr ''idt'')]) emptyStorage)
           1000"]
  by (simp add: isAuthenticated_eq kv_defs)

text \<open>
  Claim C8. With \<open>enableIdTokenExpiredValidationInRenew\<close> off,
  \<open>hasIdTokenExpiredAndRenewCheckIsEnabled\<close> answers false and leaves the world as it
  was: it reads no token and fires no event. \<open>areAuthStorageTokensValid\<close> is then
  presence and the access token check alone, and it does the same whatever the token
  validator would say about the id token.
\<close>

theorem renew_check_off_skips_id_token:
  assumes "\<not> enableIdTokenExpiredValidationInRenew c"
  shows "hasIdTokenExpiredAndRenewCheckIsEnabled deps c w = (False, w) \<and>
         fst (areAuthStorageTokensValid deps c w) =
           (fst (isAuthenticated deps c w) \<and>
            validateAccessTokenNotExpired deps
              (storageRead deps ''access_token_expires_at'' c (storage w)) c
              (renewTimeBeforeTokenExpiresInSeconds c)) \<and>
         areAuthStorageTokensValid (deps\<lparr>hasIdTokenExpired := expired\<rparr>) c w =
           areAuthStorageTokensValid deps c w"
  using assms
  by (auto simp add: areAuthStorageTokensValid_def isAuthenticated_eq
        hasIdTokenExpiredAndRenewCheckIsEnabled_eq hasAccessTokenExpiredIfExpiryExists_eq
        logDebug_def called_def Let_def)

text \<open>
  \<open>configB\<close> has the flag off; its stored id token has expired for the validator, and
  the stored tokens are valid all the same.
\<close>

theorem renew_check_off_skips_id_token_witness:
  "specHasIdTokenExpired 1000 noClaim (JStr ''idt'') configB 30 \<and>
   fst (hasIdTokenExpiredAndRenewCheckIsEnabled (kvCollaborators 1000 noClaim) configB
          (initialWorld
             (signedIn configB (JStr ''at'') (JObj [(''id_token'', JStr ''idt'')]) emptyStorage)
             1000)) = False \<and>
   fst (areAuthStorageTokensValid (kvCollaborators 1000 noClaim) configB
          (initialWorld
             (signedIn configB (JStr ''at'') (JObj [(''id_token'', JStr ''idt'')]) emptyStorage)
             1000)) = True"
  using renew_check_off_skips_id_token
    [of configB "kvCollaborators 1000 noClaim"
      "initialWorld
         (signedIn configB (JStr ''at'') (JObj [(''id_token'', JStr ''idt'')]) emptyStorage) 1000"]
  by (simp add: isAuthenticated_eq kv_defs)

subsection \<open>Token getters\<close>

text \<open>
  Claim C9, as it is stated, fails: the claim is that in every storage state a token
  getter of an authenticated configuration returns the stored value percent-decoded. A
  stored access token that is no well-formed percent-encoding, here the string
  \<open>%\<close>, makes \<open>decodeURIComponent\<close> throw, and \<open>getAccessToken\<close> throws
  with it instead of returning.
\<close>

theorem getAccessToken_throws_on_malformed_token:
  "fst (isAuthenticated (kvCollaborators 1000 noClaim) configA
          (initialWorld
             (signedIn configA (JStr ''%'') (JObj [(''id_token'', JStr ''idt'')]) emptyStorage)
             1000)) = True \<and>
   fst (getAccessToken (kvCollaborators 1000 noClaim) configA
          (initialWorld
             (signedIn configA (JStr ''%'') (JObj [(''id_token'', JStr ''idt'')]) emptyStorage)
             1000)) = Inl URIError"
  by (simp add: getters_eq isAuthenticated_eq kv_defs returnString_def
        decodeURIComponentSafely_def decoder_defs)

text \<open>
  Claim C9, amended. When \<open>isAuthenticated\<close> is false each of the four getters
  returns null (it returns, it does not throw). When it is true, the stored access token
  and id token are truthy, and \<open>getAccessToken\<close> and \<open>getIdToken\<close> return the
  string \<open>decodeURIComponent\<close> makes of the stored value, whenever
  \<open>decodeURIComponent\<close> returns one; \<open>getRefreshToken\<close> does the same for a
  truthy stored value and returns the empty string, not null, for a falsy or absent one;
  \<open>getAuthenticationResult\<close> returns the stored result as it is.
\<close>

theorem token_getters:
  fixes deps :: "'st collaborators" and c :: OpenIdConfiguration and w :: "'st world"
  defines "accessToken \<equiv> storageGetAccessToken deps c (storage w)"
    and "idToken \<equiv> storageGetIdToken deps c (storage w)"
    and "refreshToken \<equiv> storageGetRefreshToken deps c (storage w)"
  shows
    "(\<not> fst (isAuthenticated deps c w) \<longrightarrow>
        fst (getAccessToken deps c w) = Inr JNull \<and>
        fst (getIdToken deps c w) = Inr JNull \<and>
        fst (getRefreshToken deps c w) = Inr JNull \<and>
        fst (getAuthenticationResult deps c w) = Inr JNull) \<and>
     (fst (isAuthenticated deps c w) \<longrightarrow> truthy accessToken \<and> truthy idToken) \<and>
     (fst (isAuthenticated deps c w) \<and> decodeURIComponent deps accessToken = Inr decoded \<longrightarrow>
        fst (getAccessToken deps c w) = Inr (JStr decoded)) \<and>
     (fst (isAuthenticated deps c w) \<and> decodeURIComponent deps idToken = Inr decoded \<longrightarrow>
        fst (getIdToken deps c w) = Inr (JStr decoded)) \<and>
     (fst (isAuthenticated deps c w) \<and> truthy refreshToken \<and>
      decodeURIComponent deps refreshToken = Inr decoded \<longrightarrow>
        fst (getRefreshToken deps c w) = Inr (JStr decoded)) \<and>
     (fst (isAuthenticated deps c w) \<and> \<not> truthy refreshToken \<longrightarrow>
        fst (getRefreshToken deps c w) = Inr (JStr [])) \<and>
     (fst (isAuthenticated deps c w) \<longrightarrow>
        fst (getAuthenticationResult deps c w) =
          Inr (storageGetAuthenticationResult deps c (storage w)))"
  unfolding accessToken_def idToken_def refreshToken_def
  by (simp add: getters_eq isAuthenticated_eq decodeURIComponentSafely_def returnString_def)

text \<open>
  Nothing stored: null. The access token \<open>a%20b\<close> stored with an id token and no
  refresh token: the access token comes back as \<open>a b\<close>, the id token as it is, the
  refresh token as the empty string. With the refresh token \<open>r%2Fs\<close> stored as
  well it comes back as \<open>r/s\<close>.
\<close>

theorem token_getters_witness:
  "fst (getAccessToken (kvCollaborators 1000 noClaim) configA (initialWorld emptyStorage 1000)) =
     Inr JNull \<and>
   fst (getAccessToken (kvCollaborators 1000 noClaim) configA
          (initialWorld
             (signedIn configA (JStr ''a%20b'') (JObj [(''id_token'', JStr ''idt'')])
                emptyStorage) 1000)) = Inr (JStr ''a b'') \<and>
   fst (getIdToken (kvCollaborators 1000 noClaim) configA
          (initialWorld
             (signedIn configA (JStr ''a%20b'') (JObj [(''id_token'', JStr ''idt'')])
                emptyStorage) 1000)) = Inr (JStr ''idt'') \<and>
   fst (getRefreshToken (kvCollaborators 1000 noClaim) configA
          (initialWorld
             (signedIn configA (JStr ''a%20b'') (JObj [(''id_token'', JStr ''idt'')])
                emptyStorage) 1000)) = Inr (JStr []) \<and>
   fst (getRefreshToken (kvCollaborators 1000 noClaim) configA
          (initialWorld
             (signedIn configA (JStr ''a%20b'')
                (JObj [(''id_token'', JStr ''idt''), (''refresh_token'', JStr ''r%2Fs'')])
                emptyStorage) 1000)) = Inr (JStr ''r/s'')"
proof -
  let ?deps = "kvCollaborators 1000 noClaim"
  let ?w = "initialWorld
              (signedIn configA (JStr ''a%20b'') (JObj [(''id_token'', JStr ''idt'')])
                 emptyStorage) 1000"
  let ?v = "initialWorld
              (signedIn configA (JStr ''a%20b'')
                 (JObj [(''id_token'', JStr ''idt''), (''refresh_token'', JStr ''r%2Fs'')])
                 emptyStorage) 1000"
  have access: "decodeURIComponent ?deps (storageGetAccessToken ?deps configA (storage ?w)) =
                  Inr ''a b''"
    by (simp add: kv_defs decoder_defs)
  have id: "decodeURIComponent ?deps (storageGetIdToken ?deps configA (storage ?w)) =
              Inr ''idt''"
    by (simp add: kv_defs decoder_defs)
  have refresh: "decodeURIComponent ?deps (storageGetRefreshToken ?deps configA (storage ?v)) =
                   Inr ''r/s''"
    by (simp add: kv_defs decoder_defs)
  show ?thesis
    using access id refresh
      token_getters [of ?deps configA "initialWorld emptyStorage 1000"]
      token_getters [of ?deps configA ?w "''a b''"]
      token_getters [of ?deps configA ?w "''idt''"]
      token_getters [of ?deps configA ?v "''r/s''"]
    by (simp add: isAuthenticated_eq kv_defs)
qed

subsection \<open>Numbers in the safe range and beyond\<close>

lemma bitLength_le: "m < 2 ^ k \<Longrightarrow> bitLength m \<le> k"
proof (induction k arbitrary: m)
  case 0
  then show ?case by simp
next
  case (Suc k)
  show ?case
  proof (cases "m = 0")
    case True
    then show ?thesis by simp
  next
    case False
    have "m div 2 < 2 ^ k" using Suc.prems by simp
    then have "bitLength (m div 2) \<le> k" by (rule Suc.IH)
    then show ?thesis using False by (subst bitLength.simps) simp
  qed
qed

lemma bitLength_ge: "2 ^ k \<le> m \<Longrightarrow> k < bitLength m"
proof (induction k arbitrary: m)
  case 0
  then show ?case by (subst bitLength.simps) simp
next
  case (Suc k)
  have "2 ^ k \<le> m div 2" using Suc.prems by simp
  then have "k < bitLength (m div 2)" by (rule Suc.IH)
  moreover have "m \<noteq> 0"
  proof
    assume "m = 0"
    then have "(2::nat) ^ Suc k \<le> 0" using Suc.prems by simp
    then show False by simp
  qed
  ultimately show ?case by (subst bitLength.simps) simp
qed

declare bitLength.simps [simp del]

lemma bitLength_eq: "2 ^ k \<le> m \<Longrightarrow> m < 2 ^ Suc k \<Longrightarrow> bitLength m = Suc k"
  using bitLength_le [of m "Suc k"] bitLength_ge [of k m] by simp

lemma nearestDouble_safe:
  assumes "m \<le> 9007199254740991"
  shows "nearestDouble m = Some m"
proof -
  have small: "m < 2 ^ 53" using assms by simp
  then have "bitLength m \<le> 53" by (rule bitLength_le)
  then have sh: "bitLength m - 53 = 0" by simp
  have "(2::nat) ^ 53 \<le> 2 ^ 1024" by (rule power_increasing) simp_all
  then have "m < 2 ^ 1024" using small by (rule less_le_trans [rotated])
  then show ?thesis by (simp add: nearestDouble_def sh)
qed

lemma nearestNumber_safe: "safeInteger n \<Longrightarrow> nearestNumber n = Some n"
  using nearestDouble_safe [of "nat (abs n)"]
  by (simp add: nearestNumber_def safeInteger_def)

lemma numberTimes_safe:
  assumes "safeInteger a" "safeInteger b" "safeInteger (a * b)"
  shows "numberTimes a b = Some (a * b)"
  using assms by (simp add: numberTimes_def nearestNumber_safe)

lemma numberPlus_safe:
  assumes "safeInteger a" "safeInteger b" "safeInteger (a + b)"
  shows "numberPlus a b = Some (a + b)"
  using assms by (simp add: numberPlus_def nearestNumber_safe)

lemma whole_second_safe:
  fixes t :: int
  assumes "0 \<le> t" and "t < 253402300800000"
  shows "abs ((t div 1000) * 1000) \<le> 9007199254740991"
proof -
  have nonneg: "0 \<le> t div 1000" using assms(1) by simp
  have "t = (t div 1000) * 1000 + t mod 1000" by simp
  moreover have "0 \<le> t mod 1000" by simp
  ultimately have "(t div 1000) * 1000 \<le> t" by linarith
  then show ?thesis using nonneg assms by simp
qed

text \<open>
  Beyond the safe integers a sum is rounded: a lifetime of \<open>10^17\<close> seconds is
  \<open>10^20\<close> milliseconds, and added to the time 1700000001000 it gives the double
  100000001700000006144, not 100000001700000001000.
\<close>

lemma nearestDouble_rounds:
  "nearestDouble 100000000000000000000 = Some 100000000000000000000"
  "nearestDouble 100000001700000001000 = Some 100000001700000006144"
proof -
  have below: "(n::nat) < 2 ^ 67 \<Longrightarrow> n < 2 ^ 1024" for n
  proof -
    assume "n < 2 ^ 67"
    also have "(2::nat) ^ 67 \<le> 2 ^ 1024" by (rule power_increasing) simp_all
    finally show ?thesis .
  qed
  have "bitLength 100000000000000000000 = Suc 66"
    by (rule bitLength_eq) simp_all
  moreover have "(100000000000000000000::nat) < 2 ^ 1024" by (rule below) simp
  ultimately show "nearestDouble 100000000000000000000 = Some 100000000000000000000"
    by (simp add: nearestDouble_def Let_def)
  have "bitLength 100000001700000001000 = Suc 66"
    by (rule bitLength_eq) simp_all
  moreover have "(100000001700000006144::nat) < 2 ^ 1024" by (rule below) simp
  ultimately show "nearestDouble 100000001700000001000 = Some 100000001700000006144"
    by (simp add: nearestDouble_def Let_def)
qed

lemma numberPlus_rounds:
  "numberTimes 100000000000000000 1000 = Some 100000000000000000000"
  "numberPlus 1700000001000 100000000000000000000 = Some 100000001700000006144"
proof -
  have small: "nearestNumber 1000 = Some 1000" "nearestNumber 1700000001000 = Some 1700000001000"
    by (simp_all add: nearestNumber_safe safeInteger_def)
  have lifetime: "nearestNumber 100000000000000000 = Some 100000000000000000"
  proof -
    have "bitLength 100000000000000000 = Suc 56"
      by (rule bitLength_eq) simp_all
    moreover have "(100000000000000000::nat) < 2 ^ 1024"
    proof -
      have "(100000000000000000::nat) < 2 ^ 57" by simp
      also have "(2::nat) ^ 57 \<le> 2 ^ 1024" by (rule power_increasing) simp_all
      finally show ?thesis .
    qed
    ultimately have "nearestDouble 100000000000000000 = Some 100000000000000000"
      by (simp add: nearestDouble_def Let_def)
    then show ?thesis by (simp add: nearestNumber_def)
  qed
  have product: "nearestNumber 100000000000000000000 = Some 100000000000000000000"
    using nearestDouble_rounds(1) by (simp add: nearestNumber_def)
  have rounded: "nearestNumber 100000001700000001000 = Some 100000001700000006144"
    using nearestDouble_rounds(2) by (simp add: nearestNumber_def)
  show "numberTimes 100000000000000000 1000 = Some 100000000000000000000"
    using small lifetime product by (simp add: numberTimes_def)
  show "numberPlus 1700000001000 100000000000000000000 = Some 100000001700000006144"
    using small product rounded by (simp add: numberPlus_def)
qed

lemma utcNow_realClock:
  assumes "realClock (clock w)"
  shows "utcNow w = Some ((clock w div 1000) * 1000)"
    and "safeInteger ((clock w div 1000) * 1000)"
  using assms whole_second_safe [of "clock w"]
  by (simp_all add: utcNow_def realClock_def safeInteger_def)

lemma clock_unchanged:
  "clock (spWrite deps key v c w) = clock w"
  "clock (logDebug c message w) = clock w"
  by (simp_all add: spWrite_def logDebug_def called_def)

text \<open>
  The expiry the service computes, where the numbers stay exact: the clock rounded down
  to the second plus a thousand times the lifetime.
\<close>

lemma persistAccessTokenExpirationTime_safe:
  assumes "e \<noteq> 0" and "realClock (clock w)" and "safeInteger (e * 1000)"
    and "safeInteger ((clock w div 1000) * 1000 + e * 1000)"
  shows "persistAccessTokenExpirationTime deps (Some \<lparr>expires_in = Some e\<rparr>) c w =
           Some (spWrite deps ''access_token_expires_at''
                   (JNum ((clock w div 1000) * 1000 + e * 1000)) c w)"
proof -
  have e: "safeInteger e" using assms(3) by (simp add: safeInteger_def)
  have k: "safeInteger 1000" by (simp add: safeInteger_def)
  have times: "numberTimes e 1000 = Some (e * 1000)"
    using e k assms(3) by (rule numberTimes_safe)
  have plus: "numberPlus ((clock w div 1000) * 1000) (e * 1000) =
                Some ((clock w div 1000) * 1000 + e * 1000)"
    using utcNow_realClock(2) [OF assms(2)] assms(3) assms(4) by (rule numberPlus_safe)
  show ?thesis
    using assms(1) utcNow_realClock(1) [OF assms(2)] times plus
    by (simp add: persistAccessTokenExpirationTime_def)
qed

subsection \<open>Storing the access token and its expiry\<close>

text \<open>
  Claim C7, as it is stated, fails: the claim is that the stored expiry is the time of
  the call plus \<open>expires_in * 1000\<close>. The service reads the time through
  \<open>toUTCString\<close>, which drops the milliseconds. At the clock reading 1700000000123
  and \<open>expires_in = 3600\<close> it writes 1700003600000, not 1700003600123.
\<close>

theorem setAuthorizationData_drops_milliseconds:
  "map_option calls
     (setAuthorizationData (kvCollaborators 0 noClaim) ''at''
        (Some \<lparr>expires_in = Some 3600\<rparr>) configA
        (initialWorld emptyStorage 1700000000123)) =
     Some [LogDebug configA (''storing the accessToken '' @ [CHR 0x27] @ ''at'' @ [CHR 0x27]),
           StorageWrite ''authzData'' (JStr ''at'') configA,
           StorageWrite ''access_token_expires_at'' (JNum 1700003600000) configA] \<and>
   (1700003600000 :: int) \<noteq> 1700000000123 + 3600 * 1000"
proof -
  let ?w2 = "spWrite (kvCollaborators 0 noClaim) ''authzData'' (JStr ''at'') configA
               (logDebug configA (''storing the accessToken '' @ [CHR 0x27] @ ''at'' @ [CHR 0x27])
                  (initialWorld emptyStorage 1700000000123))"
  have "persistAccessTokenExpirationTime (kvCollaborators 0 noClaim)
          (Some \<lparr>expires_in = Some 3600\<rparr>) configA ?w2 =
        Some (spWrite (kvCollaborators 0 noClaim) ''access_token_expires_at''
                (JNum ((clock ?w2 div 1000) * 1000 + 3600 * 1000)) configA ?w2)"
    by (rule persistAccessTokenExpirationTime_safe)
       (simp_all add: realClock_def safeInteger_def clock_unchanged initialWorld_def)
  then show ?thesis
    by (simp add: setAuthorizationData_def setAuthenticatedAndFireEvent_single subjectNext_def
          collaborator_calls kv_defs Let_def)
qed

text \<open>
  Claim C7, amended. Let the clock be that of a running system (a time from 1970 to the
  end of 9999) and let \<open>expires_in\<close> be present and not zero, with
  \<open>expires_in * 1000\<close> and the expiry below within the safe integers. Then
  \<open>setAuthorizationData\<close> logs, writes the access token under \<open>authzData\<close> and
  then writes, under \<open>access_token_expires_at\<close>, the clock reading rounded down to a
  whole second plus \<open>expires_in * 1000\<close>. With no auth result or no
  \<open>expires_in\<close> in it, the second write is skipped: the access token is the only
  thing stored.
\<close>

theorem setAuthorizationData_expiry:
  fixes deps :: "'st collaborators" and c :: OpenIdConfiguration and w :: "'st world"
    and accessToken :: string and e :: int
  defines "logged \<equiv>
             LogDebug c (''storing the accessToken '' @ [CHR 0x27] @ accessToken @ [CHR 0x27])"
    and "tokenWrite \<equiv> StorageWrite ''authzData'' (JStr accessToken) c"
    and "tokenStored \<equiv> storageWrite deps ''authzData'' (JStr accessToken) c (storage w)"
    and "expiry \<equiv> (clock w div 1000) * 1000 + e * 1000"
  shows
    "(e \<noteq> 0 \<and> realClock (clock w) \<and> safeInteger (e * 1000) \<and> safeInteger expiry \<longrightarrow>
        map_option calls
          (setAuthorizationData deps accessToken (Some \<lparr>expires_in = Some e\<rparr>) c w) =
          Some (calls w @
                [logged, tokenWrite,
                 StorageWrite ''access_token_expires_at'' (JNum expiry) c]) \<and>
        map_option storage
          (setAuthorizationData deps accessToken (Some \<lparr>expires_in = Some e\<rparr>) c w) =
          Some (storageWrite deps ''access_token_expires_at'' (JNum expiry) c tokenStored)) \<and>
     (authResult = None \<or> authResult = Some \<lparr>expires_in = None\<rparr> \<longrightarrow>
        map_option calls (setAuthorizationData deps accessToken authResult c w) =
          Some (calls w @ [logged, tokenWrite]) \<and>
        map_option storage (setAuthorizationData deps accessToken authResult c w) =
          Some tokenStored)"
proof -
  let ?w2 = "spWrite deps ''authzData'' (JStr accessToken) c
               (logDebug c
                  (''storing the accessToken '' @ [CHR 0x27] @ accessToken @ [CHR 0x27]) w)"
  have written:
    "persistAccessTokenExpirationTime deps (Some \<lparr>expires_in = Some e\<rparr>) c ?w2 =
       Some (spWrite deps ''access_token_expires_at''
               (JNum ((clock w div 1000) * 1000 + e * 1000)) c ?w2)"
    if "e \<noteq> 0" "realClock (clock w)" "safeInteger (e * 1000)"
      "safeInteger ((clock w div 1000) * 1000 + e * 1000)"
    using persistAccessTokenExpirationTime_safe [of e ?w2 deps c] that
    by (simp add: clock_unchanged)
  have skipped:
    "persistAccessTokenExpirationTime deps authResult c ?w2 = Some ?w2"
    if "authResult = None \<or> authResult = Some \<lparr>expires_in = None\<rparr>"
    using that by (auto simp add: persistAccessTokenExpirationTime_def)
  show ?thesis
    unfolding logged_def tokenWrite_def tokenStored_def expiry_def
    using written skipped
    by (auto simp add: setAuthorizationData_def setAuthenticatedAndFireEvent_single
          subjectNext_def collaborator_calls Let_def)
qed

text \<open>
  At the clock reading 1700000000123: 1700003600000 is stored for \<open>expires_in = 3600\<close>,
  and nothing is stored as expiry when the auth result has no \<open>expires_in\<close>.
\<close>

theorem setAuthorizationData_expiry_witness:
  "map_option (\<lambda>w. kvRead ''access_token_expires_at'' configA (storage w))
     (setAuthorizationData (kvCollaborators 0 noClaim) ''at''
        (Some \<lparr>expires_in = Some 3600\<rparr>) configA
        (initialWorld emptyStorage 1700000000123)) = Some (JNum 1700003600000) \<and>
   map_option (\<lambda>w. kvRead ''access_token_expires_at'' configA (storage w))
     (setAuthorizationData (kvCollaborators 0 noClaim) ''at''
        (Some \<lparr>expires_in = None\<rparr>) configA
        (initialWorld emptyStorage 1700000000123)) = Some JUndefined \<and>
   map_option (\<lambda>w. kvRead ''authzData'' configA (storage w))
     (setAuthorizationData (kvCollaborators 0 noClaim) ''at''
        (Some \<lparr>expires_in = None\<rparr>) configA
        (initialWorld emptyStorage 1700000000123)) = Some (JStr ''at'')"
  using setAuthorizationData_expiry
      [where e = 3600 and deps = "kvCollaborators 0 noClaim" and accessToken = "''at''"
         and c = configA and w = "initialWorld emptyStorage 1700000000123"
         and authResult = "Some \<lparr>expires_in = None\<rparr>"]
  by (auto simp add: kv_defs realClock_def safeInteger_def option.map_comp comp_def
        map_option_case split: option.splits)

subsection \<open>Composing the aggregate\<close>

text \<open>
  Claim C1, as it is stated, fails: the claim is that for a list of one configuration
  \<open>composeAuthenticatedResult\<close> and \<open>checkAllConfigsIfTheyAreAuthenticated\<close>
  give the same result in every storage state. With nothing stored the first says
  authenticated and the second says not.
\<close>

theorem composeAuthenticatedResult_single_differs:
  "snd (fst (composeAuthenticatedResult (kvCollaborators 0 noClaim) [configA]
               (initialWorld emptyStorage 0))) \<noteq>
   snd (fst (checkAllConfigsIfTheyAreAuthenticated (kvCollaborators 0 noClaim) [configA]
               (initialWorld emptyStorage 0)))"
  by (simp add: composeAuthenticatedResult_def checkAllConfigsIfTheyAreAuthenticated_def
        newObject_def isAuthenticated_eq kv_defs Let_def)

text \<open>
  Claim C1, amended. For a list of one configuration \<open>composeAuthenticatedResult\<close>
  answers authenticated, for the aggregate and for the configuration, without looking at
  the storage: it calls no collaborator, and the world after it is the world before it
  with one more object allocated. \<open>checkAllConfigsIfTheyAreAuthenticated\<close> asks the
  storage for the tokens, as \<open>isAuthenticated\<close> does, and answers what
  \<open>isAuthenticated\<close> says of the configuration. The two results are equal exactly
  when \<open>isAuthenticated\<close> is true of it.
\<close>

theorem composeAuthenticatedResult_single:
  "snd (fst (composeAuthenticatedResult deps [c] w)) =
     \<lparr>aggregateIsAuthenticated = True,
      allConfigsAuthenticated =
        [\<lparr>resultConfigId = configId c, resultIsAuthenticated = True\<rparr>]\<rparr> \<and>
   snd (composeAuthenticatedResult deps [c] w) = w\<lparr>nextRef := Suc (nextRef w)\<rparr> \<and>
   calls (snd (composeAuthenticatedResult deps [c] w)) = calls w \<and>
   storage (snd (composeAuthenticatedResult deps [c] w)) = storage w \<and>
   snd (fst (checkAllConfigsIfTheyAreAuthenticated deps [c] w)) =
     \<lparr>aggregateIsAuthenticated = fst (isAuthenticated deps c w),
      allConfigsAuthenticated =
        [\<lparr>resultConfigId = configId c,
          resultIsAuthenticated = fst (isAuthenticated deps c w)\<rparr>]\<rparr> \<and>
   calls (snd (checkAllConfigsIfTheyAreAuthenticated deps [c] w)) =
     calls w @
     (StorageGetAccessToken c #
      (if truthy (storageGetAccessToken deps c (storage w)) then [StorageGetIdToken c] else [])) \<and>
   storage (snd (checkAllConfigsIfTheyAreAuthenticated deps [c] w)) = storage w \<and>
   (snd (fst (composeAuthenticatedResult deps [c] w)) =
      snd (fst (checkAllConfigsIfTheyAreAuthenticated deps [c] w))
    \<longleftrightarrow> fst (isAuthenticated deps c w))"
  by (simp add: composeAuthenticatedResult_def checkAllConfigsIfTheyAreAuthenticated_def
        newObject_def isAuthenticated_eq Let_def)

text \<open>
  With both tokens stored for the configuration the two results are the same; the
  shortcut has called nothing, the general path has read both tokens.
\<close>

theorem composeAuthenticatedResult_single_witness:
  "snd (fst (composeAuthenticatedResult (kvCollaborators 0 noClaim) [configA]
               (initialWorld
                  (signedIn configA (JStr ''at'') (JObj [(''id_token'', JStr ''idt'')])
                     emptyStorage) 0))) =
   snd (fst (checkAllConfigsIfTheyAreAuthenticated (kvCollaborators 0 noClaim) [configA]
               (initialWorld
                  (signedIn configA (JStr ''at'') (JObj [(''id_token'', JStr ''idt'')])
                     emptyStorage) 0))) \<and>
   calls (snd (composeAuthenticatedResult (kvCollaborators 0 noClaim) [configA]
               (initialWorld
                  (signedIn configA (JStr ''at'') (JObj [(''id_token'', JStr ''idt'')])
                     emptyStorage) 0))) = [] \<and>
   calls (snd (checkAllConfigsIfTheyAreAuthenticated (kvCollaborators 0 noClaim) [configA]
               (initialWorld
                  (signedIn configA (JStr ''at'') (JObj [(''id_token'', JStr ''idt'')])
                     emptyStorage) 0))) =
     [StorageGetAccessToken configA, StorageGetIdToken configA]"
  using composeAuthenticatedResult_single
    [of "kvCollaborators 0 noClaim" configA
      "initialWorld
         (signedIn configA (JStr ''at'') (JObj [(''id_token'', JStr ''idt'')]) emptyStorage) 0"]
  by (simp add: isAuthenticated_eq kv_defs)

lemma checkAllConfigsIfTheyAreAuthenticated_consistent:
  "aggregateIsAuthenticated (snd (fst (checkAllConfigsIfTheyAreAuthenticated deps cfgs w))) =
     list_all resultIsAuthenticated
       (allConfigsAuthenticated (snd (fst (checkAllConfigsIfTheyAreAuthenticated deps cfgs w))))"
  by (simp add: checkAllConfigsIfTheyAreAuthenticated_def newObject_def Let_def case_prod_beta)

lemma composeAuthenticatedResult_consistent:
  "aggregateIsAuthenticated (snd (fst (composeAuthenticatedResult deps cfgs w))) =
     list_all resultIsAuthenticated
       (allConfigsAuthenticated (snd (fst (composeAuthenticatedResult deps cfgs w))))"
  using checkAllConfigsIfTheyAreAuthenticated_consistent [of deps cfgs w]
  by (simp add: composeAuthenticatedResult_def newObject_def Let_def)

lemma composeUnAuthenticatedResult_consistent:
  "aggregateIsAuthenticated (snd (fst (composeUnAuthenticatedResult deps cfgs w))) =
     list_all resultIsAuthenticated
       (allConfigsAuthenticated (snd (fst (composeUnAuthenticatedResult deps cfgs w))))"
  using checkAllConfigsIfTheyAreAuthenticated_consistent [of deps cfgs w]
  by (simp add: composeUnAuthenticatedResult_def newObject_def Let_def)

lemma published_authenticated:
  "authenticatedInternal (setAuthenticatedAndFireEvent deps cfgs w) =
     fst (composeAuthenticatedResult deps cfgs w)"
  by (simp add: setAuthenticatedAndFireEvent_def subjectNext_def case_prod_beta)

lemma published_unauthenticated:
  "snd (authenticatedInternal (setUnauthenticatedAndFireEvent deps c w)) =
     \<lparr>aggregateIsAuthenticated = False,
      allConfigsAuthenticated =
        [\<lparr>resultConfigId = configId c, resultIsAuthenticated = False\<rparr>]\<rparr>"
  by (simp add: setUnauthenticatedAndFireEvent_def composeUnAuthenticatedResult_def
        newObject_def subjectNext_def case_prod_beta Let_def)

subsection \<open>The published aggregate\<close>

text \<open>
  Claim C4, as it is stated, fails twice on the empty set. The claim is that the
  aggregate flag is true exactly when every entry is true, and that for an empty set of
  configurations the aggregate is not authenticated. \<open>setAuthenticatedAndFireEvent\<close>
  with the empty list publishes an authenticated aggregate; and the default value, which
  has no entry that is false, is not authenticated.
\<close>

theorem published_aggregate_empty_set:
  "aggregateIsAuthenticated
     (snd (authenticatedInternal
             (setAuthenticatedAndFireEvent (kvCollaborators 0 noClaim) []
                (initialWorld emptyStorage 0)))) \<and>
   \<not> (aggregateIsAuthenticated DEFAULT_AUTHRESULT \<longleftrightarrow>
        list_all resultIsAuthenticated (allConfigsAuthenticated DEFAULT_AUTHRESULT))"
  by (simp add: published_authenticated composeAuthenticatedResult_def
        checkAllConfigsIfTheyAreAuthenticated_def newObject_def DEFAULT_AUTHRESULT_def)

text \<open>
  Claim C4, amended. In every aggregate that \<open>setAuthenticatedAndFireEvent\<close> or
  \<open>setUnauthenticatedAndFireEvent\<close> publishes, the flag is true exactly when every
  entry is true; for the empty list of configurations that aggregate is authenticated,
  with no entries. The value the service starts with is the default one: not
  authenticated, with no entries.
\<close>

theorem published_aggregate_is_conjunction:
  "(aggregateIsAuthenticated
      (snd (authenticatedInternal (setAuthenticatedAndFireEvent deps cfgs w)))
    \<longleftrightarrow> (\<forall>x\<in>set (allConfigsAuthenticated
                       (snd (authenticatedInternal (setAuthenticatedAndFireEvent deps cfgs w)))).
            resultIsAuthenticated x)) \<and>
   (aggregateIsAuthenticated
      (snd (authenticatedInternal (setUnauthenticatedAndFireEvent deps c w)))
    \<longleftrightarrow> (\<forall>x\<in>set (allConfigsAuthenticated
                       (snd (authenticatedInternal (setUnauthenticatedAndFireEvent deps c w)))).
            resultIsAuthenticated x)) \<and>
   snd (authenticatedInternal (setAuthenticatedAndFireEvent deps [] w)) =
     \<lparr>aggregateIsAuthenticated = True, allConfigsAuthenticated = []\<rparr> \<and>
   snd (authenticatedInternal (initialWorld st now)) =
     \<lparr>aggregateIsAuthenticated = False, allConfigsAuthenticated = []\<rparr>"
proof -
  have empty: "snd (authenticatedInternal (setAuthenticatedAndFireEvent deps [] w)) =
     \<lparr>aggregateIsAuthenticated = True, allConfigsAuthenticated = []\<rparr>"
    by (simp add: published_authenticated composeAuthenticatedResult_def
        checkAllConfigsIfTheyAreAuthenticated_def newObject_def)
  have initial: "snd (authenticatedInternal (initialWorld st now)) =
     \<lparr>aggregateIsAuthenticated = False, allConfigsAuthenticated = []\<rparr>"
    by (simp add: initialWorld_def DEFAULT_AUTHRESULT_def)
  show ?thesis
    using empty initial composeAuthenticatedResult_consistent [of deps cfgs w]
    by (simp add: published_authenticated published_unauthenticated list_all_iff)
qed

text \<open>
  Two configurations, tokens stored for the first only: the published aggregate is not
  authenticated and lists both, in the order given.
\<close>

theorem published_aggregate_is_conjunction_witness:
  "snd (authenticatedInternal
          (setAuthenticatedAndFireEvent (kvCollaborators 0 noClaim) [configA, configB]
             (initialWorld
                (signedIn configA (JStr ''at'') (JObj [(''id_token'', JStr ''idt'')])
                   emptyStorage) 0))) =
     \<lparr>aggregateIsAuthenticated = False,
      allConfigsAuthenticated =
        [\<lparr>resultConfigId = ''a'', resultIsAuthenticated = True\<rparr>,
         \<lparr>resultConfigId = ''b'', resultIsAuthenticated = False\<rparr>]\<rparr>"
  using published_aggregate_is_conjunction
    [of "kvCollaborators 0 noClaim" "[configA, configB]"
      "initialWorld
         (signedIn configA (JStr ''at'') (JObj [(''id_token'', JStr ''idt'')]) emptyStorage) 0"]
  by (simp add: published_authenticated composeAuthenticatedResult_def
        checkAllConfigsIfTheyAreAuthenticated_def newObject_def isAuthenticated_eq kv_defs
        Let_def)

subsection \<open>The stream of published aggregates\<close>

lemma checkAllConfigsIfTheyAreAuthenticated_allocates:
  "fst (fst (checkAllConfigsIfTheyAreAuthenticated deps cfgs w)) = nextRef w \<and>
   nextRef (snd (checkAllConfigsIfTheyAreAuthenticated deps cfgs w)) = Suc (nextRef w) \<and>
   subscribers (snd (checkAllConfigsIfTheyAreAuthenticated deps cfgs w)) = subscribers w"
proof -
  let ?f = "\<lambda>config v. (let (a, v') = isAuthenticated deps config v
             in (\<lparr>resultConfigId = configId config, resultIsAuthenticated = a\<rparr>, v'))"
  have n: "nextRef (snd (mapS ?f cfgs w)) = nextRef w"
    by (rule mapS_keeps) (simp add: isAuthenticated_eq)
  have s: "subscribers (snd (mapS ?f cfgs w)) = subscribers w"
    by (rule mapS_keeps) (simp add: isAuthenticated_eq)
  show ?thesis
    using n s
    by (simp add: checkAllConfigsIfTheyAreAuthenticated_def newObject_def Let_def
          case_prod_beta)
qed

lemma composeAuthenticatedResult_allocates:
  "fst (fst (composeAuthenticatedResult deps cfgs w)) = nextRef w \<and>
   nextRef (snd (composeAuthenticatedResult deps cfgs w)) = Suc (nextRef w) \<and>
   subscribers (snd (composeAuthenticatedResult deps cfgs w)) = subscribers w"
  using checkAllConfigsIfTheyAreAuthenticated_allocates [of deps cfgs w]
  by (simp add: composeAuthenticatedResult_def newObject_def Let_def)

lemma keysAllocated_iff:
  "keysAllocated w \<longleftrightarrow>
     fst (authenticatedInternal w) < nextRef w \<and>
     (\<forall>s\<in>set (subscribers w). \<forall>k. lastKey s = Some k \<longrightarrow> k < nextRef w)"
  by (auto simp add: keysAllocated_def list_all_iff split: option.splits)

lemma distinctUntilChanged_new_key:
  assumes "\<forall>k. lastKey s = Some k \<longrightarrow> k < fst v"
  shows "distinctUntilChanged v s =
           s\<lparr>lastKey := Some (fst v), received := received s @ [snd v]\<rparr>"
  using assms by (auto simp add: distinctUntilChanged_def)

lemma keysAllocated_initialWorld: "keysAllocated (initialWorld st now)"
  by (simp add: keysAllocated_def initialWorld_def)

lemma keysAllocated_subscribe: "keysAllocated w \<Longrightarrow> keysAllocated (subscribe w)"
  by (auto simp add: keysAllocated_iff subscribe_def distinctUntilChanged_def)

text \<open>
  \<open>distinctUntilChanged()\<close> never holds anything back here: the object
  \<open>setAuthenticatedAndFireEvent\<close> publishes is new each time, so its key differs from
  every key a subscription remembers, and every subscriber is handed the value, equal to
  the one before or not.
\<close>

lemma every_publish_is_delivered:
  assumes "keysAllocated w"
  shows "map received (subscribers (setAuthenticatedAndFireEvent deps cfgs w)) =
           map (\<lambda>s. received s @
                  [snd (authenticatedInternal (setAuthenticatedAndFireEvent deps cfgs w))])
             (subscribers w) \<and>
         keysAllocated (setAuthenticatedAndFireEvent deps cfgs w)"
proof -
  let ?r = "composeAuthenticatedResult deps cfgs w"
  have ref: "fst (fst ?r) = nextRef w"
    and nr': "nextRef (snd ?r) = Suc (nextRef w)"
    and subs': "subscribers (snd ?r) = subscribers w"
    using composeAuthenticatedResult_allocates [of deps cfgs w] by simp_all
  have k: "\<forall>s\<in>set (subscribers w). \<forall>k. lastKey s = Some k \<longrightarrow> k < fst (fst ?r)"
    using assms by (simp add: keysAllocated_iff ref)
  have d: "distinctUntilChanged (fst ?r) s =
             s\<lparr>lastKey := Some (nextRef w), received := received s @ [snd (fst ?r)]\<rparr>"
    if "s \<in> set (subscribers w)" for s
    using k that distinctUntilChanged_new_key [of s "fst ?r"] by (simp add: ref)
  have subs: "subscribers (setAuthenticatedAndFireEvent deps cfgs w) =
                map (distinctUntilChanged (fst ?r)) (subscribers w)"
    by (simp add: setAuthenticatedAndFireEvent_def subjectNext_def case_prod_beta subs')
  have nr: "nextRef (setAuthenticatedAndFireEvent deps cfgs w) = Suc (nextRef w)"
    by (simp add: setAuthenticatedAndFireEvent_def subjectNext_def case_prod_beta nr')
  have cur: "authenticatedInternal (setAuthenticatedAndFireEvent deps cfgs w) = fst ?r"
    by (rule published_authenticated)
  have delivered: "map received (subscribers (setAuthenticatedAndFireEvent deps cfgs w)) =
           map (\<lambda>s. received s @ [snd (fst ?r)]) (subscribers w)"
    by (simp add: subs d)
  have kept: "keysAllocated (setAuthenticatedAndFireEvent deps cfgs w)"
    by (auto simp add: keysAllocated_iff subs nr cur ref d)
  show ?thesis using delivered kept by (simp add: cur)
qed

text \<open>
  Claim C3. The claim is that a subscriber of \<open>authenticated$\<close> never receives two
  notifications in a row whose values are structurally equal. A subscriber that is there
  while \<open>setAuthenticatedAndFireEvent\<close> is called twice with the same configuration
  receives the default value and then the same aggregate twice.
\<close>

theorem authenticated_stream_repeats_equal_aggregate:
  "map received
     (subscribers
        (setAuthenticatedAndFireEvent (kvCollaborators 0 noClaim) [configA]
           (setAuthenticatedAndFireEvent (kvCollaborators 0 noClaim) [configA]
              (subscribe (initialWorld emptyStorage 0))))) =
   [[\<lparr>aggregateIsAuthenticated = False, allConfigsAuthenticated = []\<rparr>,
     \<lparr>aggregateIsAuthenticated = True,
      allConfigsAuthenticated = [\<lparr>resultConfigId = ''a'', resultIsAuthenticated = True\<rparr>]\<rparr>,
     \<lparr>aggregateIsAuthenticated = True,
      allConfigsAuthenticated = [\<lparr>resultConfigId = ''a'', resultIsAuthenticated = True\<rparr>]\<rparr>]]"
  by (simp add: setAuthenticatedAndFireEvent_single subjectNext_def subscribe_def
        distinctUntilChanged_def initialWorld_def DEFAULT_AUTHRESULT_def configA_def)

end
